theory Spec2Isabelle
  imports Complex_Main "HOL-Library.Sublist"
begin

section \<open>GIVC Core Academy: LINC agents and workflows\<close>

text \<open>
  A shallow embedding of the agent worker (\<^verbatim>\<open>backend/linc-agents/src/index.ts\<close>) and of the
  workflow worker (the TypeScript part of \<^verbatim>\<open>setup.sh\<close>).

  Conventions of the embedding:
  \<^item> a JavaScript number is an exact rational (\<^typ>\<open>rat\<close>), or a natural number where the
    code only counts; rounding errors of IEEE doubles are not modelled;
  \<^item> a JavaScript string of ASCII characters is a \<^typ>\<open>string\<close>; Arabic text is a list of
    Unicode code points (\<^typ>\<open>nat list\<close>);
  \<^item> an optional field (\<^verbatim>\<open>undefined\<close>) is an \<^typ>\<open>'a option\<close>;
  \<^item> \<^verbatim>\<open>new Date().toISOString()\<close>, \<^verbatim>\<open>crypto.randomUUID()\<close> and \<^verbatim>\<open>Math.random()\<close>
    are inputs of the handler that calls them;
  \<^item> a thrown exception is the left summand of a sum type;
  \<^item> a local of the source whose name is also the name of a record field is written with a
    prime (\<open>sampleSize'\<close>).
\<close>

subsection \<open>JavaScript primitives\<close>

type_synonym utext = "nat list"

definition Math_round :: "rat \<Rightarrow> rat" where
  "Math_round x = of_int \<lfloor>x + 1 / 2\<rfloor>"

definition Math_ceil :: "rat \<Rightarrow> rat" where
  "Math_ceil x = of_int \<lceil>x\<rceil>"

definition upper_letters :: string where
  "upper_letters = ''ABCDEFGHIJKLMNOPQRSTUVWXYZ''"

definition lower_letters :: string where
  "lower_letters = ''abcdefghijklmnopqrstuvwxyz''"

text \<open>
  \<^verbatim>\<open>toLowerCase\<close> and \<^verbatim>\<open>toUpperCase\<close> on the letters of ASCII; other characters are left as
  they are. The strings that the code searches for after changing the case are ASCII.
\<close>

definition toLowerCase_char :: "char \<Rightarrow> char" where
  "toLowerCase_char c =
     (case map_of (zip upper_letters lower_letters) c of None \<Rightarrow> c | Some d \<Rightarrow> d)"

definition toUpperCase_char :: "char \<Rightarrow> char" where
  "toUpperCase_char c =
     (case map_of (zip lower_letters upper_letters) c of None \<Rightarrow> c | Some d \<Rightarrow> d)"

definition toLowerCase :: "string \<Rightarrow> string" where
  "toLowerCase s = map toLowerCase_char s"

definition toUpperCase :: "string \<Rightarrow> string" where
  "toUpperCase s = map toUpperCase_char s"

text \<open>\<^verbatim>\<open>s.includes(pat)\<close>: \<open>pat\<close> occurs in \<open>s\<close> as a contiguous substring.\<close>

fun includes_str :: "string \<Rightarrow> string \<Rightarrow> bool" where
  "includes_str [] pat = (pat = [])"
| "includes_str (c # cs) pat = (prefix pat (c # cs) \<or> includes_str cs pat)"

text \<open>\<^verbatim>\<open>s.substring(0, n)\<close> and the truthiness of an optional string.\<close>

definition substring0 :: "nat \<Rightarrow> string \<Rightarrow> string" where
  "substring0 n s = take n s"

definition or_else :: "string option \<Rightarrow> string \<Rightarrow> string" where
  "or_else v d = (case v of None \<Rightarrow> d | Some s \<Rightarrow> if s = [] then d else s)"

subsection \<open>Rejection analysis of the claims agent\<close>

record recommendation =
  ar :: utext
  en :: string

record analysis =
  rootCauses :: "string list"
  recommendations :: "recommendation list"
  confidenceScore :: rat
  estimatedSavings :: nat
  automationAvailable :: bool
  suggestedActions :: "string list"

text \<open>The four mutable locals of \<^verbatim>\<open>performAnalysis\<close>, threaded through its \<^verbatim>\<open>if\<close> statements.\<close>

record findings =
  f_rootCauses :: "string list"
  f_recommendations :: "recommendation list"
  f_confidenceScore :: rat
  f_estimatedSavings :: nat

definition found :: "string \<Rightarrow> recommendation \<Rightarrow> rat \<Rightarrow> nat \<Rightarrow> findings \<Rightarrow> findings" where
  "found cause rec conf savings f =
     \<lparr>f_rootCauses = f_rootCauses f @ [cause],
      f_recommendations = f_recommendations f @ [rec],
      f_confidenceScore = conf,
      f_estimatedSavings = savings\<rparr>"

definition rec_codes :: recommendation where
  "rec_codes =
     \<lparr>ar = [1578, 1581, 1583, 1610, 1579, 32, 1585, 1605, 1608, 1586, 32, 73, 67, 68, 45, 49,
             48, 32, 1571, 1608, 32, 67, 80, 84, 32, 1575, 1604, 1605, 1591, 1604, 1608, 1576,
             1577],
      en = ''Update required ICD-10 or CPT codes''\<rparr>"

definition rec_authorization :: recommendation where
  "rec_authorization =
     \<lparr>ar = [1575, 1604, 1581, 1589, 1608, 1604, 32, 1593, 1604, 1609, 32, 1578, 1601, 1608,
             1610, 1590, 32, 1605, 1587, 1576, 1602, 32, 1605, 1606, 32, 1575, 1604, 1583, 1575,
             1601, 1593],
      en = ''Obtain prior authorization from payer''\<rparr>"

definition rec_documentation :: recommendation where
  "rec_documentation =
     \<lparr>ar = [1578, 1581, 1587, 1610, 1606, 32, 1575, 1604, 1578, 1608, 1579, 1610, 1602, 32,
             1575, 1604, 1587, 1585, 1610, 1585, 1610, 32, 1576, 1575, 1604, 1578, 1601, 1575,
             1589, 1610, 1604, 32, 1575, 1604, 1605, 1591, 1604, 1608, 1576, 1577],
      en = ''Enhance clinical documentation with required details''\<rparr>"

definition rec_deadline :: recommendation where
  "rec_deadline =
     \<lparr>ar = [1605, 1585, 1575, 1580, 1593, 1577, 32, 1605, 1608, 1575, 1593, 1610, 1583, 32,
             1575, 1604, 1578, 1602, 1583, 1610, 1605, 32, 1608, 1578, 1602, 1583, 1610, 1605, 32,
             1575, 1587, 1578, 1574, 1606, 1575, 1601],
      en = ''Review submission deadlines and file appeal''\<rparr>"

definition rec_manual :: recommendation where
  "rec_manual =
     \<lparr>ar = [1605, 1585, 1575, 1580, 1593, 1577, 32, 1610, 1583, 1608, 1610, 1577, 32, 1605,
             1591, 1604, 1608, 1576, 1577, 32, 1605, 1606, 32, 1575, 1604, 1605, 1582, 1578, 1589],
      en = ''Manual review required by specialist''\<rparr>"

definition matches_code :: "string \<Rightarrow> bool" where
  "matches_code lowerReason = (includes_str lowerReason ''code'' \<or> includes_str lowerReason ''invalid'')"

definition matches_authorization :: "string \<Rightarrow> bool" where
  "matches_authorization lowerReason =
     (includes_str lowerReason ''authorization'' \<or> includes_str lowerReason ''prior auth'')"

definition matches_documentation :: "string \<Rightarrow> bool" where
  "matches_documentation lowerReason =
     (includes_str lowerReason ''documentation'' \<or> includes_str lowerReason ''medical necessity'')"

definition matches_deadline :: "string \<Rightarrow> bool" where
  "matches_deadline lowerReason =
     (includes_str lowerReason ''timely'' \<or> includes_str lowerReason ''deadline'')"

definition scan_reason :: "string \<Rightarrow> findings" where
  "scan_reason lowerReason =
     (let f0 = \<lparr>f_rootCauses = [], f_recommendations = [], f_confidenceScore = 1 / 2,
                 f_estimatedSavings = 0\<rparr>;
          f1 = (if matches_code lowerReason
                then found ''Incorrect or missing diagnosis/procedure codes'' rec_codes
                       (85 / 100) 2500 f0
                else f0);
          f2 = (if matches_authorization lowerReason
                then found ''Missing prior authorization'' rec_authorization (9 / 10) 5000 f1
                else f1);
          f3 = (if matches_documentation lowerReason
                then found ''Insufficient clinical documentation'' rec_documentation
                       (8 / 10) 3500 f2
                else f2);
          f4 = (if matches_deadline lowerReason
                then found ''Claim submitted after filing deadline'' rec_deadline
                       (7 / 10) 1500 f3
                else f3)
      in f4)"

definition performAnalysis :: "string \<Rightarrow> string list \<Rightarrow> string list \<Rightarrow> analysis" where
  "performAnalysis rejectionReason diagnosisCodes procedureCodes =
     (let f4 = scan_reason (toLowerCase rejectionReason);
          f5 = (if length (f_rootCauses f4) = 0
                then f4\<lparr>f_rootCauses := f_rootCauses f4 @ [''Requires manual review''],
                        f_recommendations := f_recommendations f4 @ [rec_manual]\<rparr>
                else f4)
      in \<lparr>rootCauses = f_rootCauses f5,
          recommendations = f_recommendations f5,
          confidenceScore = f_confidenceScore f5,
          estimatedSavings = f_estimatedSavings f5,
          automationAvailable =
            (length (f_rootCauses f5) > 0 \<and>
             ''Requires manual review'' \<notin> set (f_rootCauses f5)),
          suggestedActions =
            (if length (f_recommendations f5) > 0
             then [''Prepare corrected claim'', ''Submit for re-processing'']
             else [''Route to manual review''])\<rparr>)"

subsection \<open>Request payloads\<close>

text \<open>
  The fields the handlers read from a JSON request body, each of them optional. One record
  serves the three kinds of request; \<^verbatim>\<open>JSON.stringify\<close> followed by \<^verbatim>\<open>request.json()\<close> is the
  identity on it.
\<close>

record payload =
  claimId :: "string option"
  payerId :: "string option"
  diagnosisCodes :: "string list option"
  procedureCodes :: "string list option"
  rejectionReason :: "string option"
  providerId :: "string option"
  sampleSize :: "rat option"
  sbsVersion :: "string option"
  auditType :: "string option"
  learnerId :: "string option"
  targetCertification :: "string option"
  yearsOfExperience :: "rat option"
  currentRole :: "string option"

definition empty_payload :: payload where
  "empty_payload =
     \<lparr>claimId = None, payerId = None, diagnosisCodes = None, procedureCodes = None,
      rejectionReason = None, providerId = None, sampleSize = None, sbsVersion = None,
      auditType = None, learnerId = None, targetCertification = None,
      yearsOfExperience = None, currentRole = None\<rparr>"

subsection \<open>Step bodies of the workflows\<close>

text \<open>\<^verbatim>\<open>ClaimsWorkflow.run\<close>, step \<^verbatim>\<open>validate-claim-data\<close>.\<close>

record validation =
  isValid :: bool
  issues :: "string list"
  v_claimId :: "string option"

definition falsy_string :: "string option \<Rightarrow> bool" where
  "falsy_string v = (case v of None \<Rightarrow> True | Some s \<Rightarrow> s = [])"

definition validate_claim_data :: "payload \<Rightarrow> validation" where
  "validate_claim_data p =
     (let i0 = [];
          i1 = (if falsy_string (claimId p) then i0 @ [''Missing claim ID''] else i0);
          i2 = (if falsy_string (payerId p) then i1 @ [''Missing payer ID''] else i1);
          i3 = (if (case diagnosisCodes p of None \<Rightarrow> True | Some ds \<Rightarrow> length ds = 0)
                then i2 @ [''Missing diagnosis codes''] else i2)
      in \<lparr>isValid = (length i3 = 0), issues = i3, v_claimId = claimId p\<rparr>)"

text \<open>\<^verbatim>\<open>ClaimsWorkflow.run\<close>, step \<^verbatim>\<open>ai-analyze-rejection\<close>.\<close>

record rejection_analysis =
  w_confidenceScore :: rat
  w_rootCauses :: "string list"
  w_recommendations :: "recommendation list"
  w_automationAvailable :: bool

definition w_rec_codes :: recommendation where
  "w_rec_codes =
     \<lparr>ar = [1578, 1581, 1583, 1610, 1579, 32, 1585, 1605, 1608, 1586, 32, 73, 67, 68, 45, 49,
             48, 32, 1571, 1608, 32, 67, 80, 84],
      en = ''Update ICD-10 or CPT codes''\<rparr>"

definition w_rec_documentation :: recommendation where
  "w_rec_documentation =
     \<lparr>ar = [1578, 1581, 1587, 1610, 1606, 32, 1575, 1604, 1578, 1608, 1579, 1610, 1602, 32,
             1575, 1604, 1587, 1585, 1610, 1585, 1610],
      en = ''Improve clinical documentation''\<rparr>"

definition w_rec_manual :: recommendation where
  "w_rec_manual =
     \<lparr>ar = [1605, 1585, 1575, 1580, 1593, 1577, 32, 1610, 1583, 1608, 1610, 1577, 32, 1605,
             1591, 1604, 1608, 1576, 1577],
      en = ''Manual review required''\<rparr>"

definition scan_rejection :: "string \<Rightarrow> string list \<times> recommendation list" where
  "scan_rejection r =
     (let c0 = ([], []);
          c1 = (if includes_str (toLowerCase r) ''code''
                then (fst c0 @ [''Incorrect or missing diagnosis/procedure codes''],
                      snd c0 @ [w_rec_codes])
                else c0);
          c2 = (if includes_str (toLowerCase r) ''authorization''
                then (fst c1 @ [''Missing prior authorization''], snd c1 @ [rec_authorization])
                else c1);
          c3 = (if includes_str (toLowerCase r) ''documentation''
                then (fst c2 @ [''Insufficient clinical documentation''],
                      snd c2 @ [w_rec_documentation])
                else c2)
      in c3)"

definition ai_analyze_rejection :: "payload \<Rightarrow> rejection_analysis" where
  "ai_analyze_rejection p =
     (let c3 = (case rejectionReason p of
                  None \<Rightarrow> ([], [])
                | Some r \<Rightarrow> if r = [] then ([], []) else scan_rejection r);
          c4 = (if length (fst c3) = 0
                then (fst c3 @ [''Requires manual review''], snd c3 @ [w_rec_manual])
                else c3)
      in \<lparr>w_confidenceScore = (if length (snd c4) > 0 then 85 / 100 else 1 / 2),
          w_rootCauses = fst c4,
          w_recommendations = snd c4,
          w_automationAvailable = (length (snd c4) > 0)\<rparr>)"

text \<open>\<^verbatim>\<open>ClaimsWorkflow.run\<close>, steps \<^verbatim>\<open>store-analysis-results\<close> and \<^verbatim>\<open>determine-next-actions\<close>.\<close>

record stored =
  stored :: bool
  timestamp :: string

definition store_analysis_results :: "string \<Rightarrow> stored" where
  "store_analysis_results now = \<lparr>stored = True, timestamp = now\<rparr>"

record next_actions =
  actions :: "string list"
  requiresHumanReview :: bool

definition determine_next_actions :: "rejection_analysis \<Rightarrow> next_actions" where
  "determine_next_actions a =
     \<lparr>actions =
        (if w_automationAvailable a
         then [''Prepare corrected claim'', ''Submit for re-processing'']
         else [''Route to manual review queue'', ''Notify billing team'']),
      requiresHumanReview = (\<not> w_automationAvailable a)\<rparr>"

text \<open>\<^verbatim>\<open>AuditWorkflow.run\<close>, steps \<^verbatim>\<open>gather-sample-claims\<close> and \<^verbatim>\<open>analyze-compliance\<close>.\<close>

definition digit_chars :: string where
  "digit_chars = ''0123456789''"

fun decimal :: "nat \<Rightarrow> string" where
  "decimal n =
     (if n < 10 then [digit_chars ! n] else decimal (n div 10) @ [digit_chars ! (n mod 10)])"

declare decimal.simps [simp del]

record sample_claim =
  s_claimId :: string
  hasErrors :: bool
  errorType :: string

record sample_data =
  claims :: "sample_claim list"
  totalSampled :: rat

text \<open>
  The loop \<^verbatim>\<open>for (let i = 0; i < sampleSize; i++)\<close> runs for \<open>i = 0, 1, \<dots>\<close> below
  \<open>sampleSize\<close>; iteration \<open>i\<close> makes the calls number \<open>2 i\<close> and \<open>2 i + 1\<close> of
  \<^verbatim>\<open>Math.random()\<close>, given by \<open>random\<close>, and one call of \<^verbatim>\<open>Date.now()\<close>, given by \<open>now\<close>.
\<close>

definition gather_sample_claims :: "(nat \<Rightarrow> rat) \<Rightarrow> (nat \<Rightarrow> nat) \<Rightarrow> rat \<Rightarrow> sample_data" where
  "gather_sample_claims random now sampleSize' =
     \<lparr>claims =
        map (\<lambda>i. \<lparr>s_claimId = ''CLM-'' @ decimal (now i) @ ''-'' @ decimal i,
                   hasErrors = (random (2 * i) > 85 / 100),
                   errorType = (if random (2 * i + 1) > 1 / 2 then ''coding''
                                else ''documentation'')\<rparr>)
          [0 ..< nat \<lceil>sampleSize'\<rceil>],
      totalSampled = sampleSize'\<rparr>"

datatype risk_level = low | medium | high | critical

text \<open>
  The score is a number or \<^verbatim>\<open>NaN\<close> (\<open>None\<close>): with \<open>sampleSize = 0\<close> and no error the
  quotient is \<open>0 / 0\<close>; every comparison with \<^verbatim>\<open>NaN\<close> is false, which leaves the
  classification at its initial value. With \<open>sampleSize = 0\<close> and errors the quotient is
  \<open>-Infinity\<close>, which the clamp turns into \<open>0\<close>, as it does the \<open>0\<close> that division by
  zero gives in HOL.
\<close>

record compliance_analysis =
  complianceScore :: "rat option"
  riskLevel :: risk_level
  auditOutcome :: string
  errorCount :: nat
  c_sampleSize :: rat

text \<open>The three \<^verbatim>\<open>if\<close> statements run in this order, each overwriting the classification.\<close>

definition classify :: "rat \<Rightarrow> risk_level \<times> string" where
  "classify score =
     (let c0 = (low, ''COMPLIANT'');
          c1 = (if score < 90 then (medium, ''MINOR_ISSUES'') else c0);
          c2 = (if score < 75 then (high, ''REQUIRES_IMPROVEMENT'') else c1);
          c3 = (if score < 60 then (critical, ''NON_COMPLIANT'') else c2)
      in c3)"

definition analyze_compliance :: "rat \<Rightarrow> sample_data \<Rightarrow> compliance_analysis" where
  "analyze_compliance sampleSize' sampleData =
     (let errorCount' = length (filter hasErrors (claims sampleData))
      in if sampleSize' = 0 \<and> errorCount' = 0
         then \<lparr>complianceScore = None, riskLevel = low, auditOutcome = ''COMPLIANT'',
               errorCount = errorCount', c_sampleSize = sampleSize'\<rparr>
         else
           (let baseScore = ((sampleSize' - of_nat errorCount') / sampleSize') * 100;
                complianceScore' = max 0 (min 100 baseScore);
                c = classify complianceScore'
            in \<lparr>complianceScore = Some (Math_round (complianceScore' * 100) / 100),
                riskLevel = fst c,
                auditOutcome = snd c,
                errorCount = errorCount',
                c_sampleSize = sampleSize'\<rparr>))"

text \<open>\<^verbatim>\<open>LearningWorkflow.run\<close>, step \<^verbatim>\<open>calculate-success-probability\<close>.\<close>

record factor =
  factor :: string
  impact :: string


definition impact_factors :: "rat \<Rightarrow> string \<Rightarrow> factor list" where
  "impact_factors yearsOfExperience' currentRole' =
     [\<lparr>factor = ''Experience'',
        impact = (if yearsOfExperience' > 2 then ''positive'' else ''neutral'')\<rparr>,
      \<lparr>factor = ''Current Role'',
        impact = (if includes_str (toLowerCase currentRole') ''coder'' then ''positive''
                  else ''neutral'')\<rparr>]"


subsection \<open>Requests, responses and the state of an agent instance\<close>

datatype error = SyntaxError | TypeError

datatype json =
    JNull
  | JBool bool
  | JNum rat
  | JStr string
  | JText utext
  | JMessage error
  | JArr "json list"
  | JObj "(string \<times> json) list"

text \<open>\<open>JMessage e\<close> stands for the message text of the caught exception \<open>e\<close>.\<close>

record response =
  status :: nat
  data :: json

definition jsonResponse :: "json \<Rightarrow> nat \<Rightarrow> response" where
  "jsonResponse d st = \<lparr>status = st, data = d\<rparr>"

text \<open>
  A request to an agent: the path of its URL, its method, and its body as \<^verbatim>\<open>request.json()\<close>
  parses it (\<open>None\<close>: the body is not a JSON object, and reading it throws).
\<close>

record 'b request =
  pathname :: string
  http_method :: string
  body :: "'b option"

record env =
  now :: string
  uuid :: string
  random :: rat
  CLAIMS_WORKFLOW :: "string option option"
  AUDIT_WORKFLOW :: "string option option"
  LEARNING_WORKFLOW :: "string option option"

text \<open>
  A workflow binding is \<open>None\<close> when it is not configured, \<open>Some None\<close> when
  \<^verbatim>\<open>create\<close> throws, and \<open>Some (Some i)\<close> when it returns the instance \<open>i\<close>.
\<close>

definition trigger :: "string option option \<Rightarrow> string option" where
  "trigger binding = (case binding of None \<Rightarrow> None | Some created \<Rightarrow> created)"

record AgentState =
  createdAt :: string
  lastActivity :: string
  requestCount :: nat

record ClaimsState = AgentState +
  claimsAnalyzed :: nat
  totalSavings :: nat
  pendingClaims :: "string list"

record action_ref =
  ref_id :: string
  ref_status :: string

record AuditState = AgentState +
  auditsCompleted :: nat
  averageScore :: rat
  correctiveActions :: "action_ref list"

record LearningState = AgentState +
  pathsGenerated :: nat
  activeModules :: "string list"
  completionRate :: rat

text \<open>
  An agent instance: its name, its state, and the rows of the one table that its
  \<^verbatim>\<open>onStart\<close> creates.
\<close>

record ('s, 'r) agent =
  name :: string
  state :: 's
  rows :: "'r list"

text \<open>
  Modelled from the spec: the SQL store behind \<^verbatim>\<open>this.sql\<close> belongs to the platform. Following
  the spec's actor log (``ordered sequence of persisted request/response records,
  append-only, keyed by a generated request id''), an \<^verbatim>\<open>INSERT\<close> appends one row to the table
  of the instance and an \<^verbatim>\<open>UPDATE ... WHERE id = \<dots>\<close> rewrites the rows of that id. Key
  conflicts are not modelled: generated ids are taken to be new.
\<close>

definition sql_insert :: "'r \<Rightarrow> ('s, 'r) agent \<Rightarrow> ('s, 'r) agent" where
  "sql_insert r a = a\<lparr>rows := rows a @ [r]\<rparr>"

definition setState :: "'s \<Rightarrow> ('s, 'r) agent \<Rightarrow> ('s, 'r) agent" where
  "setState s a = a\<lparr>state := s\<rparr>"

definition getAgentByName :: "(string \<rightharpoonup> 'a) \<Rightarrow> (string \<Rightarrow> 'a) \<Rightarrow> string \<Rightarrow> 'a" where
  "getAgentByName ns create n = (case ns n of None \<Rightarrow> create n | Some a \<Rightarrow> a)"

definition opt_field :: "string \<Rightarrow> json option \<Rightarrow> (string \<times> json) list" where
  "opt_field k v = (case v of None \<Rightarrow> [] | Some j \<Rightarrow> [(k, j)])"

definition recommendation_json :: "recommendation \<Rightarrow> json" where
  "recommendation_json r = JObj [(''ar'', JText (ar r)), (''en'', JStr (en r))]"

subsection \<open>The claims agent\<close>

record claims_analysis_row =
  ca_id :: string
  ca_claim_id :: "string option"
  ca_payer_id :: string
  ca_rejection_reason :: string
  ca_root_causes :: "string list"
  ca_recommendations :: "recommendation list"
  ca_confidence_score :: rat
  ca_created_at :: string

type_synonym claims_agent = "(ClaimsState, claims_analysis_row) agent"

definition Claims_initial :: "string \<Rightarrow> string \<Rightarrow> claims_agent" where
  "Claims_initial t n =
     \<lparr>name = n,
      state = \<lparr>createdAt = t, lastActivity = t, requestCount = 0, claimsAnalyzed = 0,
               totalSavings = 0, pendingClaims = []\<rparr>,
      rows = []\<rparr>"

definition analysis_json :: "analysis \<Rightarrow> (string \<times> json) list" where
  "analysis_json a =
     [(''rootCauses'', JArr (map JStr (rootCauses a))),
      (''recommendations'', JArr (map recommendation_json (recommendations a))),
      (''confidenceScore'', JNum (confidenceScore a)),
      (''estimatedSavings'', JNum (of_nat (estimatedSavings a))),
      (''automationAvailable'', JBool (automationAvailable a)),
      (''suggestedActions'', JArr (map JStr (suggestedActions a)))]"

definition analyzeClaim ::
  "env \<Rightarrow> claims_agent \<Rightarrow> payload request \<Rightarrow> claims_agent \<times> (error + response)" where
  "analyzeClaim e a req =
     (case body req of
        None \<Rightarrow> (a, Inl SyntaxError)
      | Some p \<Rightarrow>
          (let diagnosisCodes' = (case diagnosisCodes p of None \<Rightarrow> [] | Some ds \<Rightarrow> ds);
               procedureCodes' = (case procedureCodes p of None \<Rightarrow> [] | Some ps \<Rightarrow> ps);
               analysisId = uuid e;
               an = performAnalysis (or_else (rejectionReason p) []) diagnosisCodes'
                      procedureCodes';
               a1 = sql_insert
                      \<lparr>ca_id = analysisId, ca_claim_id = claimId p,
                       ca_payer_id = or_else (payerId p) [],
                       ca_rejection_reason = or_else (rejectionReason p) [],
                       ca_root_causes = rootCauses an,
                       ca_recommendations = recommendations an,
                       ca_confidence_score = confidenceScore an,
                       ca_created_at = now e\<rparr> a;
               a2 = setState
                      ((state a1)\<lparr>claimsAnalyzed := claimsAnalyzed (state a1) + 1,
                                  totalSavings := totalSavings (state a1) + estimatedSavings an\<rparr>)
                      a1
           in (a2,
               Inr (jsonResponse
                 (JObj ([(''analysisId'', JStr analysisId)] @
                        opt_field ''claimId'' (map_option JStr (claimId p)) @
                        analysis_json an @
                        opt_field ''workflowInstanceId''
                          (map_option JStr (trigger (CLAIMS_WORKFLOW e))) @
                        [(''processedAt'', JStr (now e))]))
                 200))))"

definition Claims_onRequest ::
  "env \<Rightarrow> claims_agent \<Rightarrow> payload request \<Rightarrow> claims_agent \<times> (error + response)" where
  "Claims_onRequest e a req =
     (let a0 = setState
                 ((state a)\<lparr>lastActivity := now e, requestCount := requestCount (state a) + 1\<rparr>)
                 a
      in if pathname req = ''/health''
         then (a0,
               Inr (jsonResponse
                 (JObj [(''agent'', JStr ''ClaimsLINC''),
                        (''status'', JStr ''healthy''),
                        (''instanceId'', JStr (name a0)),
                        (''claimsAnalyzed'', JNum (of_nat (claimsAnalyzed (state a0)))),
                        (''totalSavings'', JNum (of_nat (totalSavings (state a0))))])
                 200))
         else if (pathname req = ''/analyze'' \<or> pathname req = ''/api/v1/claims/analyze'') \<and>
                 http_method req = ''POST''
         then analyzeClaim e a0 req
         else (a0, Inr (jsonResponse (JObj [(''error'', JStr ''Not found'')]) 404)))"

subsection \<open>The audit agent\<close>

text \<open>\<^verbatim>\<open>`${n}`\<close> for a number \<open>n\<close> that \<^verbatim>\<open>Math.round\<close> returned.\<close>

definition show_int :: "int \<Rightarrow> string" where
  "show_int i = (if i < 0 then ''-'' @ decimal (nat (- i)) else decimal (nat i))"

definition ascii :: "string \<Rightarrow> utext" where
  "ascii s = map of_char s"

record corrective_action =
  actionId :: string
  action_type :: string
  titleAr :: utext
  titleEn :: string
  deadlineDays :: nat
  action_priority :: string

definition CAP_001 :: corrective_action where
  "CAP_001 =
     \<lparr>actionId = ''CAP-001'', action_type = ''mandatory_training'',
      titleAr = [1578, 1583, 1585, 1610, 1576, 32, 1573, 1604, 1586, 1575, 1605, 1610, 32, 1593,
                 1604, 1609, 32, 1605, 1593, 1575, 1610, 1610, 1585, 32, 1575, 1604, 1578, 1585,
                 1605, 1610, 1586],
      titleEn = ''Mandatory Coding Standards Training'',
      deadlineDays = 30, action_priority = ''high''\<rparr>"

definition CAP_002 :: "rat \<Rightarrow> corrective_action" where
  "CAP_002 score =
     \<lparr>actionId = ''CAP-002'', action_type = ''follow_up_audit'',
      titleAr = [1605, 1585, 1575, 1580, 1593, 1577, 32, 1578, 1583, 1602, 1610, 1602, 1610, 1577,
                 32, 1605, 1578, 1575, 1576, 1593, 1577],
      titleEn = ''Follow-up Compliance Audit'',
      deadlineDays = (if score < 70 then 90 else 180), action_priority = ''medium''\<rparr>"

definition CAP_003 :: corrective_action where
  "CAP_003 =
     \<lparr>actionId = ''CAP-003'', action_type = ''documentation_review'',
      titleAr = [1605, 1585, 1575, 1580, 1593, 1577, 32, 1573, 1580, 1585, 1575, 1569, 1575, 1578,
                 32, 1575, 1604, 1578, 1608, 1579, 1610, 1602],
      titleEn = ''Documentation Procedures Review'',
      deadlineDays = 45, action_priority = ''high''\<rparr>"

definition corrective_action_json :: "corrective_action \<Rightarrow> json" where
  "corrective_action_json c =
     JObj [(''actionId'', JStr (actionId c)), (''type'', JStr (action_type c)),
           (''titleAr'', JText (titleAr c)), (''titleEn'', JStr (titleEn c)),
           (''deadlineDays'', JNum (of_nat (deadlineDays c))),
           (''priority'', JStr (action_priority c))]"

definition risk_level_name :: "risk_level \<Rightarrow> string" where
  "risk_level_name r =
     (case r of low \<Rightarrow> ''low'' | medium \<Rightarrow> ''medium'' | high \<Rightarrow> ''high''
      | critical \<Rightarrow> ''critical'')"

record audit_result_row =
  ar_id :: string
  ar_provider_id :: string
  ar_sbs_version :: string
  ar_compliance_score :: rat
  ar_risk_level :: risk_level
  ar_audit_outcome :: string
  ar_corrective_actions :: "corrective_action list"
  ar_created_at :: string

type_synonym audit_agent = "(AuditState, audit_result_row) agent"

definition Audit_initial :: "string \<Rightarrow> string \<Rightarrow> audit_agent" where
  "Audit_initial t n =
     \<lparr>name = n,
      state = \<lparr>createdAt = t, lastActivity = t, requestCount = 0, auditsCompleted = 0,
               averageScore = 0, correctiveActions = []\<rparr>,
      rows = []\<rparr>"

text \<open>\<^verbatim>\<open>new Date().toISOString().split('T')[0].replace(/-/g, '')\<close>\<close>

definition date_digits :: "string \<Rightarrow> string" where
  "date_digits t = filter (\<lambda>c. c \<noteq> CHR ''-'') (takeWhile (\<lambda>c. c \<noteq> CHR ''T'') t)"

definition audit_summary :: "rat \<Rightarrow> json" where
  "audit_summary score =
     JObj [(''ar'', JText ([1578, 1583, 1602, 1610, 1602, 32, 67, 72, 73, 32, 1605, 1603, 1578,
                           1605, 1604, 46, 32, 1583, 1585, 1580, 1577, 32, 1575, 1604, 1575, 1605,
                           1578, 1579, 1575, 1604, 58, 32] @
                          ascii (show_int \<lfloor>score + 1 / 2\<rfloor>) @ ascii ''%'')),
           (''en'', JStr (''CHI Audit complete. Compliance score: '' @
                         show_int \<lfloor>score + 1 / 2\<rfloor> @ ''%''))]"

definition simulateAudit ::
  "env \<Rightarrow> audit_agent \<Rightarrow> payload request \<Rightarrow> audit_agent \<times> (error + response)" where
  "simulateAudit e a req =
     (case body req of
        None \<Rightarrow> (a, Inl SyntaxError)
      | Some p \<Rightarrow>
          (case providerId p of
             None \<Rightarrow> (a, Inl TypeError)
           | Some providerId' \<Rightarrow>
               (let sampleSize' = (case sampleSize p of None \<Rightarrow> 50 | Some n \<Rightarrow> n);
                    sbsVersion' = (case sbsVersion p of None \<Rightarrow> ''2.0'' | Some v \<Rightarrow> v);
                    auditType' = (case auditType p of None \<Rightarrow> ''routine'' | Some t \<Rightarrow> t);
                    auditId = ''CHI-AUDIT-'' @ date_digits (now e) @ ''-'' @
                              toUpperCase (substring0 8 providerId');
                    errorRate = random e * (3 / 10);
                    complianceScore' = Math_round ((1 - errorRate) * 100 * 100) / 100;
                    errorCount' = Math_round (sampleSize' * errorRate);
                    c = classify complianceScore';
                    k0 = [];
                    k1 = (if fst c = high \<or> fst c = critical then k0 @ [CAP_001] else k0);
                    k2 = (if complianceScore' < 85 then k1 @ [CAP_002 complianceScore'] else k1);
                    k3 = (if complianceScore' < 75 then k2 @ [CAP_003] else k2);
                    a1 = sql_insert
                           \<lparr>ar_id = auditId, ar_provider_id = providerId',
                            ar_sbs_version = sbsVersion', ar_compliance_score = complianceScore',
                            ar_risk_level = fst c, ar_audit_outcome = snd c,
                            ar_corrective_actions = k3, ar_created_at = now e\<rparr> a;
                    newAuditsCompleted = auditsCompleted (state a1) + 1;
                    newAverageScore =
                      ((averageScore (state a1) * of_nat (auditsCompleted (state a1))) +
                       complianceScore') / of_nat newAuditsCompleted;
                    a2 = setState
                           ((state a1)\<lparr>auditsCompleted := newAuditsCompleted,
                                       averageScore := newAverageScore,
                                       correctiveActions :=
                                         correctiveActions (state a1) @
                                         map (\<lambda>k. \<lparr>ref_id = actionId k, ref_status = ''pending''\<rparr>)
                                           k3\<rparr>)
                           a1
                in (a2,
                    Inr (jsonResponse
                      (JObj ([(''auditId'', JStr auditId),
                              (''auditDate'', JStr (now e)),
                              (''providerId'', JStr providerId'),
                              (''sbsVersion'', JStr sbsVersion'),
                              (''auditType'', JStr auditType'),
                              (''complianceScore'', JNum complianceScore'),
                              (''riskLevel'', JStr (risk_level_name (fst c))),
                              (''auditOutcome'', JStr (snd c)),
                              (''sampleSize'', JNum sampleSize'),
                              (''totalErrors'', JNum errorCount'),
                              (''correctiveActions'', JArr (map corrective_action_json k3))] @
                             opt_field ''workflowInstanceId''
                               (map_option JStr (trigger (AUDIT_WORKFLOW e))) @
                             [(''summary'', audit_summary complianceScore')]))
                      200)))))"

definition Audit_onRequest ::
  "env \<Rightarrow> audit_agent \<Rightarrow> payload request \<Rightarrow> audit_agent \<times> (error + response)" where
  "Audit_onRequest e a req =
     (let a0 = setState
                 ((state a)\<lparr>lastActivity := now e, requestCount := requestCount (state a) + 1\<rparr>)
                 a
      in if pathname req = ''/health''
         then (a0,
               Inr (jsonResponse
                 (JObj [(''agent'', JStr ''AuditLINC''),
                        (''status'', JStr ''healthy''),
                        (''instanceId'', JStr (name a0)),
                        (''auditsCompleted'', JNum (of_nat (auditsCompleted (state a0)))),
                        (''averageScore'', JNum (averageScore (state a0)))])
                 200))
         else if (pathname req = ''/simulate'' \<or> pathname req = ''/api/audit/simulate'') \<and>
                 http_method req = ''POST''
         then simulateAudit e a0 req
         else (a0, Inr (jsonResponse (JObj [(''error'', JStr ''Not found'')]) 404)))"

subsection \<open>The learning agent\<close>

record learning_module =
  module_id :: string
  m_titleAr :: utext
  m_titleEn :: string
  hours :: nat
  module_priority :: string
  module_order :: nat

definition M001 :: learning_module where
  "M001 =
     \<lparr>module_id = ''M001'',
      m_titleAr = [1571, 1587, 1575, 1587, 1610, 1575, 1578, 32, 73, 67, 68, 45, 49, 48, 45, 65,
                   77],
      m_titleEn = ''ICD-10-AM Fundamentals'', hours = 8, module_priority = ''required'',
      module_order = 1\<rparr>"

definition M002 :: learning_module where
  "M002 =
     \<lparr>module_id = ''M002'',
      m_titleAr = [1606, 1592, 1575, 1605, 32, 1575, 1604, 1601, 1608, 1578, 1585, 1577, 32, 1575,
                   1604, 1587, 1593, 1608, 1583, 1610, 32, 40, 83, 66, 83, 41],
      m_titleEn = ''Saudi Billing System (SBS)'', hours = 12, module_priority = ''required'',
      module_order = 2\<rparr>"

definition M003 :: learning_module where
  "M003 =
     \<lparr>module_id = ''M003'',
      m_titleAr = [1605, 1593, 1575, 1610, 1610, 1585, 32, 1575, 1604, 1578, 1608, 1579, 1610,
                   1602, 32, 1575, 1604, 1587, 1585, 1610, 1585, 1610],
      m_titleEn = ''Clinical Documentation Standards'', hours = 6,
      module_priority = ''required'', module_order = 3\<rparr>"

definition M004 :: learning_module where
  "M004 =
     \<lparr>module_id = ''M004'',
      m_titleAr = [1571, 1587, 1575, 1587, 1610, 1575, 1578, 32, 1575, 1604, 1578, 1585, 1605,
                   1610, 1586, 32, 1575, 1604, 1591, 1576, 1610],
      m_titleEn = ''Medical Coding Basics'', hours = 10, module_priority = ''required'',
      module_order = 4\<rparr>"

definition M005 :: learning_module where
  "M005 =
     \<lparr>module_id = ''M005'',
      m_titleAr = [1575, 1604, 1605, 1589, 1591, 1604, 1581, 1575, 1578, 32, 1575, 1604, 1591,
                   1576, 1610, 1577],
      m_titleEn = ''Medical Terminology'', hours = 8, module_priority = ''required'',
      module_order = 5\<rparr>"

definition M006 :: learning_module where
  "M006 =
     \<lparr>module_id = ''M006'',
      m_titleAr = [1578, 1585, 1605, 1610, 1586, 32, 1575, 1604, 1573, 1580, 1585, 1575, 1569,
                   1575, 1578, 32, 1575, 1604, 1605, 1578, 1602, 1583, 1605, 1577],
      m_titleEn = ''Advanced Procedure Coding'', hours = 8, module_priority = ''recommended'',
      module_order = 4\<rparr>"

definition M007 :: learning_module where
  "M007 =
     \<lparr>module_id = ''M007'',
      m_titleAr = [1573, 1580, 1585, 1575, 1569, 1575, 1578, 32, 1575, 1604, 1578, 1583, 1602,
                   1610, 1602],
      m_titleEn = ''Audit Procedures'', hours = 6, module_priority = ''recommended'',
      module_order = 5\<rparr>"

definition M008 :: learning_module where
  "M008 =
     \<lparr>module_id = ''M008'',
      m_titleAr = [1575, 1604, 1573, 1593, 1583, 1575, 1583, 32, 1604, 1588, 1607, 1575, 1583,
                   1577, 32, 67, 67, 80],
      m_titleEn = ''CCP Certification Prep'', hours = 15, module_priority = ''required'',
      module_order = 6\<rparr>"

definition module_json :: "learning_module \<Rightarrow> json" where
  "module_json m =
     JObj [(''id'', JStr (module_id m)), (''titleAr'', JText (m_titleAr m)),
           (''titleEn'', JStr (m_titleEn m)), (''hours'', JNum (of_nat (hours m))),
           (''priority'', JStr (module_priority m)),
           (''order'', JNum (of_nat (module_order m)))]"

record skill_gap =
  skill :: string
  currentLevel :: rat
  targetLevel :: rat

definition skill_gap_json :: "skill_gap \<Rightarrow> json" where
  "skill_gap_json g =
     JObj [(''skill'', JStr (skill g)), (''currentLevel'', JNum (currentLevel g)),
           (''targetLevel'', JNum (targetLevel g))]"

definition factor_json :: "factor \<Rightarrow> json" where
  "factor_json f = JObj [(''factor'', JStr (factor f)), (''impact'', JStr (impact f))]"

record learning_path_row =
  lp_id :: string
  lp_learner_id :: "string option"
  lp_target_certification :: string
  lp_modules :: "learning_module list"
  lp_skill_gaps :: "skill_gap list"
  lp_success_probability :: rat
  lp_created_at :: string

type_synonym learning_agent = "(LearningState, learning_path_row) agent"

definition Learning_initial :: "string \<Rightarrow> string \<Rightarrow> learning_agent" where
  "Learning_initial t n =
     \<lparr>name = n,
      state = \<lparr>createdAt = t, lastActivity = t, requestCount = 0, pathsGenerated = 0,
               activeModules = [], completionRate = 0\<rparr>,
      rows = []\<rparr>"

text \<open>
  \<^verbatim>\<open>[...new Set(xs)]\<close> keeps the first occurrence of every element, in order;
  \<^const>\<open>remdups\<close> keeps the last one.
\<close>

definition unique :: "'a list \<Rightarrow> 'a list" where
  "unique xs = rev (remdups (rev xs))"

definition generateLearningPath ::
  "env \<Rightarrow> learning_agent \<Rightarrow> payload request \<Rightarrow> learning_agent \<times> (error + response)" where
  "generateLearningPath e a req =
     (case body req of
        None \<Rightarrow> (a, Inl SyntaxError)
      | Some p \<Rightarrow>
          (case targetCertification p of
             None \<Rightarrow> (a, Inl TypeError)
           | Some targetCertification' \<Rightarrow>
               (let yearsOfExperience' = (case yearsOfExperience p of None \<Rightarrow> 1 | Some y \<Rightarrow> y);
                    currentRole' =
                      (case currentRole p of None \<Rightarrow> ''Medical Coder'' | Some r \<Rightarrow> r);
                    pathId = uuid e;
                    baseLevel = 50 + yearsOfExperience' * 5;
                    icd10Coding = min 100 (baseLevel + 10);
                    sbsKnowledge = min 100 baseLevel;
                    documentation = min 100 (baseLevel + 20);
                    clinicalTerminology = min 100 (baseLevel + 15);
                    m0 = [M001, M002, M003];
                    m1 = (if yearsOfExperience' < 2 then m0 @ [M004, M005]
                          else m0 @ [M006, M007]);
                    modules = (if includes_str (toUpperCase targetCertification') ''CCP''
                               then m1 @ [M008] else m1);
                    totalHours = sum_list (map hours modules);
                    hoursPerWeek = 4;
                    estimatedWeeks = Math_ceil (of_nat totalHours / of_nat hoursPerWeek);
                    baseProbability = 6 / 10 + (yearsOfExperience' * (5 / 100));
                    successProbability = min (95 / 100) baseProbability;
                    skillGaps =
                      filter (\<lambda>g. currentLevel g < targetLevel g)
                        [\<lparr>skill = ''ICD-10 Coding'', currentLevel = icd10Coding,
                           targetLevel = 90\<rparr>,
                         \<lparr>skill = ''SBS Knowledge'', currentLevel = sbsKnowledge,
                           targetLevel = 85\<rparr>,
                         \<lparr>skill = ''Documentation'', currentLevel = documentation,
                           targetLevel = 95\<rparr>,
                         \<lparr>skill = ''Clinical Terminology'', currentLevel = clinicalTerminology,
                           targetLevel = 85\<rparr>];
                    a1 = sql_insert
                           \<lparr>lp_id = pathId, lp_learner_id = learnerId p,
                            lp_target_certification = targetCertification',
                            lp_modules = modules, lp_skill_gaps = skillGaps,
                            lp_success_probability = successProbability,
                            lp_created_at = now e\<rparr> a;
                    a2 = setState
                           ((state a1)\<lparr>pathsGenerated := pathsGenerated (state a1) + 1,
                                       activeModules :=
                                         unique (activeModules (state a1) @
                                                 map module_id modules)\<rparr>)
                           a1
                in (a2,
                    Inr (jsonResponse
                      (JObj ([(''pathId'', JStr pathId)] @
                             opt_field ''learnerId'' (map_option JStr (learnerId p)) @
                             [(''targetCertification'', JStr targetCertification'),
                              (''learningPath'',
                                 JObj [(''totalModules'', JNum (of_nat (length modules))),
                                       (''totalEstimatedHours'', JNum (of_nat totalHours)),
                                       (''recommendedPace'',
                                          JStr (decimal hoursPerWeek @ '' hours/week'')),
                                       (''estimatedCompletionWeeks'', JNum estimatedWeeks),
                                       (''modules'',
                                          JArr (map module_json (sort_key module_order modules)))]),
                              (''skillAssessment'',
                                 JObj [(''icd10Coding'', JNum icd10Coding),
                                       (''sbsKnowledge'', JNum sbsKnowledge),
                                       (''documentation'', JNum documentation),
                                       (''clinicalTerminology'', JNum clinicalTerminology)]),
                              (''skillGaps'', JArr (map skill_gap_json skillGaps)),
                              (''successProbability'',
                                 JObj [(''overallProbability'',
                                          JNum (Math_round (successProbability * 100) / 100)),
                                       (''factors'',
                                          JArr (map factor_json
                                            (impact_factors yearsOfExperience' currentRole')))])] @
                             opt_field ''workflowInstanceId''
                               (map_option JStr (trigger (LEARNING_WORKFLOW e))) @
                             [(''generatedAt'', JStr (now e))]))
                      200)))))"

definition Learning_onRequest ::
  "env \<Rightarrow> learning_agent \<Rightarrow> payload request \<Rightarrow> learning_agent \<times> (error + response)" where
  "Learning_onRequest e a req =
     (let a0 = setState
                 ((state a)\<lparr>lastActivity := now e, requestCount := requestCount (state a) + 1\<rparr>)
                 a
      in if pathname req = ''/health''
         then (a0,
               Inr (jsonResponse
                 (JObj [(''agent'', JStr ''LearningLINC''),
                        (''status'', JStr ''healthy''),
                        (''instanceId'', JStr (name a0)),
                        (''pathsGenerated'', JNum (of_nat (pathsGenerated (state a0)))),
                        (''completionRate'', JNum (completionRate (state a0)))])
                 200))
         else if (pathname req = ''/path'' \<or> pathname req = ''/api/learning/path'') \<and>
                 http_method req = ''POST''
         then generateLearningPath e a0 req
         else (a0, Inr (jsonResponse (JObj [(''error'', JStr ''Not found'')]) 404)))"

subsection \<open>The master agent: the orchestration hub\<close>

record envelope =
  action :: string
  e_payload :: "payload option"

record request_row =
  rq_id :: string
  rq_type :: string
  rq_payload :: "payload option"
  rq_response :: "json option"
  rq_created_at :: string

type_synonym master_agent = "(AgentState, request_row) agent"

definition Master_initial :: "string \<Rightarrow> string \<Rightarrow> master_agent" where
  "Master_initial t n =
     \<lparr>name = n,
      state = \<lparr>createdAt = t, lastActivity = t, requestCount = 0\<rparr>,
      rows = []\<rparr>"

text \<open>The agent namespaces of the worker: the instances that exist, by name.\<close>

record world =
  MasterAgent :: "string \<rightharpoonup> master_agent"
  ClaimsAgent :: "string \<rightharpoonup> claims_agent"
  AuditAgent :: "string \<rightharpoonup> audit_agent"
  LearningAgent :: "string \<rightharpoonup> learning_agent"

text \<open>
  \<^verbatim>\<open>(await getAgentByName(ns, n)).fetch(req)\<close>: the instance of that name, created in its
  initial state when there is none, handles the request; its new state is kept, also when
  the handler throws.
\<close>

definition Claims_fetch ::
  "env \<Rightarrow> (string \<rightharpoonup> claims_agent) \<Rightarrow> string \<Rightarrow> payload request \<Rightarrow>
   (string \<rightharpoonup> claims_agent) \<times> (error + response)" where
  "Claims_fetch e ns n req =
     (let r = Claims_onRequest e (getAgentByName ns (Claims_initial (now e)) n) req
      in (ns(n \<mapsto> fst r), snd r))"

definition Audit_fetch ::
  "env \<Rightarrow> (string \<rightharpoonup> audit_agent) \<Rightarrow> string \<Rightarrow> payload request \<Rightarrow>
   (string \<rightharpoonup> audit_agent) \<times> (error + response)" where
  "Audit_fetch e ns n req =
     (let r = Audit_onRequest e (getAgentByName ns (Audit_initial (now e)) n) req
      in (ns(n \<mapsto> fst r), snd r))"

definition Learning_fetch ::
  "env \<Rightarrow> (string \<rightharpoonup> learning_agent) \<Rightarrow> string \<Rightarrow> payload request \<Rightarrow>
   (string \<rightharpoonup> learning_agent) \<times> (error + response)" where
  "Learning_fetch e ns n req =
     (let r = Learning_onRequest e (getAgentByName ns (Learning_initial (now e)) n) req
      in (ns(n \<mapsto> fst r), snd r))"

definition internal_post :: "string \<Rightarrow> payload \<Rightarrow> payload request" where
  "internal_post path p = \<lparr>pathname = path, http_method = ''POST'', body = Some p\<rparr>"

definition orchestration_failed :: "error \<Rightarrow> response" where
  "orchestration_failed err =
     jsonResponse (JObj [(''error'', JStr ''Orchestration failed''), (''message'', JMessage err)])
       500"

text \<open>The end of \<^verbatim>\<open>handleOrchestrate\<close>, after the \<^verbatim>\<open>switch\<close>: the downstream result is known.\<close>

definition orchestrated ::
  "env \<Rightarrow> master_agent \<Rightarrow> string \<Rightarrow> string \<Rightarrow> error + response \<Rightarrow> master_agent \<times> response"
  where
  "orchestrated e a requestId action' r =
     (case r of
        Inl err \<Rightarrow> (a, orchestration_failed err)
      | Inr downstream \<Rightarrow>
          (a\<lparr>rows := map (\<lambda>row. if rq_id row = requestId
                                  then row\<lparr>rq_response := Some (data downstream)\<rparr> else row)
                        (rows a)\<rparr>,
           jsonResponse
             (JObj [(''requestId'', JStr requestId), (''action'', JStr action'),
                    (''result'', data downstream), (''processedAt'', JStr (now e))])
             200))"

text \<open>
  \<open>e\<close> is the environment of the hub's own handler, \<open>d\<close> the one of the downstream
  handler it calls. The hub's instance is \<open>a\<close>; the namespaces \<open>w\<close> hold the downstream
  agents.
\<close>

definition handleOrchestrate ::
  "env \<Rightarrow> env \<Rightarrow> world \<Rightarrow> master_agent \<Rightarrow> envelope request \<Rightarrow>
   (master_agent \<times> world) \<times> response" where
  "handleOrchestrate e d w a req =
     (case body req of
        None \<Rightarrow> ((a, w), orchestration_failed SyntaxError)
      | Some b \<Rightarrow>
          (let requestId = uuid e;
               a1 = sql_insert
                      \<lparr>rq_id = requestId, rq_type = action b, rq_payload = e_payload b,
                       rq_response = None, rq_created_at = now e\<rparr> a
           in if action b = ''analyze_claim''
              then (case e_payload b of
                      None \<Rightarrow> ((a1, w), orchestration_failed TypeError)
                    | Some p \<Rightarrow>
                        (let r = Claims_fetch d (ClaimsAgent w)
                                   (''claims-'' @ or_else (claimId p) ''default'')
                                   (internal_post ''/analyze'' p);
                             m = orchestrated e a1 requestId (action b) (snd r)
                         in ((fst m, w\<lparr>ClaimsAgent := fst r\<rparr>), snd m)))
              else if action b = ''run_audit''
              then (case e_payload b of
                      None \<Rightarrow> ((a1, w), orchestration_failed TypeError)
                    | Some p \<Rightarrow>
                        (let r = Audit_fetch d (AuditAgent w)
                                   (''audit-'' @ or_else (providerId p) ''default'')
                                   (internal_post ''/simulate'' p);
                             m = orchestrated e a1 requestId (action b) (snd r)
                         in ((fst m, w\<lparr>AuditAgent := fst r\<rparr>), snd m)))
              else if action b = ''generate_learning_path''
              then (case e_payload b of
                      None \<Rightarrow> ((a1, w), orchestration_failed TypeError)
                    | Some p \<Rightarrow>
                        (let r = Learning_fetch d (LearningAgent w)
                                   (''learning-'' @ or_else (learnerId p) ''default'')
                                   (internal_post ''/path'' p);
                             m = orchestrated e a1 requestId (action b) (snd r)
                         in ((fst m, w\<lparr>LearningAgent := fst r\<rparr>), snd m)))
              else ((a1, w),
                    jsonResponse
                      (JObj [(''error'', JStr ''Unknown action''), (''action'', JStr (action b))])
                      400)))"

definition state_json :: "AgentState \<Rightarrow> json" where
  "state_json s =
     JObj [(''createdAt'', JStr (createdAt s)), (''lastActivity'', JStr (lastActivity s)),
           (''requestCount'', JNum (of_nat (requestCount s)))]"

definition Master_onRequest ::
  "env \<Rightarrow> env \<Rightarrow> world \<Rightarrow> master_agent \<Rightarrow> envelope request \<Rightarrow>
   (master_agent \<times> world) \<times> response" where
  "Master_onRequest e d w a req =
     (let a0 = setState
                 ((state a)\<lparr>lastActivity := now e, requestCount := requestCount (state a) + 1\<rparr>)
                 a
      in if pathname req = ''/health'' \<or> pathname req = ''/''
         then ((a0, w),
               jsonResponse
                 (JObj [(''agent'', JStr ''MasterLINC''),
                        (''status'', JStr ''healthy''),
                        (''instanceId'', JStr (name a0)),
                        (''state'', state_json (state a0)),
                        (''capabilities'',
                           JArr [JStr ''orchestrate'', JStr ''route'', JStr ''analyze'',
                                 JStr ''schedule'']),
                        (''timestamp'', JStr (now e))])
                 200)
         else if pathname req = ''/orchestrate'' \<and> http_method req = ''POST''
         then handleOrchestrate e d w a0 req
         else ((a0, w),
               jsonResponse
                 (JObj [(''error'', JStr ''Not found''), (''path'', JStr (pathname req))])
                 404))"

definition Master_fetch ::
  "env \<Rightarrow> env \<Rightarrow> world \<Rightarrow> string \<Rightarrow> envelope request \<Rightarrow> world \<times> response" where
  "Master_fetch e d w n req =
     (let r = Master_onRequest e d w (getAgentByName (MasterAgent w) (Master_initial (now e)) n)
                req
      in ((snd (fst r))\<lparr>MasterAgent := (MasterAgent (snd (fst r)))(n \<mapsto> fst (fst r))\<rparr>,
          snd r))"

subsection \<open>The routes of the worker that forward to an agent\<close>

text \<open>
  Each handler reads the JSON body of the incoming request (\<open>None\<close>: not a JSON object, the
  handler throws), picks the instance and forwards a \<^verbatim>\<open>POST\<close> to it.
\<close>

definition post_orchestrate ::
  "env \<Rightarrow> env \<Rightarrow> world \<Rightarrow> envelope option \<Rightarrow> world \<times> (error + response)" where
  "post_orchestrate e d w b =
     (case b of
        None \<Rightarrow> (w, Inl SyntaxError)
      | Some b' \<Rightarrow>
          (let r = Master_fetch e d w ''master-orchestrator''
                     \<lparr>pathname = ''/orchestrate'', http_method = ''POST'', body = Some b'\<rparr>
           in (fst r, Inr (snd r))))"

definition post_claims_analyze ::
  "env \<Rightarrow> world \<Rightarrow> payload option \<Rightarrow> world \<times> (error + response)" where
  "post_claims_analyze e w b =
     (case b of
        None \<Rightarrow> (w, Inl SyntaxError)
      | Some p \<Rightarrow>
          (let agentId = or_else (claimId p) ''default'';
               r = Claims_fetch e (ClaimsAgent w) (''claims-'' @ agentId)
                     (internal_post ''/analyze'' p)
           in (w\<lparr>ClaimsAgent := fst r\<rparr>, snd r)))"

definition post_audit_simulate ::
  "env \<Rightarrow> world \<Rightarrow> payload option \<Rightarrow> world \<times> (error + response)" where
  "post_audit_simulate e w b =
     (case b of
        None \<Rightarrow> (w, Inl SyntaxError)
      | Some p \<Rightarrow>
          (let agentId = or_else (providerId p) ''default'';
               r = Audit_fetch e (AuditAgent w) (''audit-'' @ agentId)
                     (internal_post ''/simulate'' p)
           in (w\<lparr>AuditAgent := fst r\<rparr>, snd r)))"

definition post_learning_path ::
  "env \<Rightarrow> world \<Rightarrow> payload option \<Rightarrow> world \<times> (error + response)" where
  "post_learning_path e w b =
     (case b of
        None \<Rightarrow> (w, Inl SyntaxError)
      | Some p \<Rightarrow>
          (let agentId = or_else (learnerId p) ''default'';
               r = Learning_fetch e (LearningAgent w) (''learning-'' @ agentId)
                     (internal_post ''/path'' p)
           in (w\<lparr>LearningAgent := fst r\<rparr>, snd r)))"

definition empty_world :: world where
  "empty_world =
     \<lparr>MasterAgent = Map.empty, ClaimsAgent = Map.empty, AuditAgent = Map.empty,
      LearningAgent = Map.empty\<rparr>"

subsection \<open>The step executor\<close>

text \<open>
  Modelled from the spec: the step executor. The workflows call \<^verbatim>\<open>step.do(name, options, fn)\<close>
  of the platform's \<^verbatim>\<open>WorkflowStep\<close> (imported from \<^verbatim>\<open>cloudflare:workers\<close>); only these calls are
  in the sources. The definitions below follow the contract of the spec's Step Executor and
  its \<open>TaskRun\<close> and \<open>StepRecord\<close>:
  \<^item> a step that has a \<open>succeeded\<close> record in the run returns the stored result and its
    function is not invoked;
  \<^item> otherwise the function is invoked; a failed attempt is retried, after a wait, while
    \<open>retries.limit\<close> is not exhausted; an attempt longer than \<open>timeout\<close> counts as failed;
  \<^item> every attempt is appended to the steps of the run;
  \<^item> when the retries are exhausted the step raises, which fails the enclosing run.

  Time is a logical clock in milliseconds; an attempt that runs into the timeout ends at the
  timeout. A step function maps the state of the world
  outside of the run to the outcome of one attempt (\<open>Inl\<close>: it raised), the duration of the
  attempt and the new outside state. The wait before the retry that follows attempt \<open>k\<close>
  is \<open>delay\<close>, doubled with every further attempt under the exponential policy.
\<close>

datatype step_status = pending | succeeded | failed

datatype run_status = running | completed | run_failed

record 'r StepRecord =
  step_name :: string
  step_status :: step_status
  result :: "'r option"
  step_error :: "string option"
  attempt :: nat
  startedAt :: nat
  completedAt :: nat

record ('p, 'r) TaskRun =
  runId :: string
  params :: 'p
  steps :: "'r StepRecord list"
  run_status :: run_status

datatype backoff = constant_backoff | exponential_backoff

record retries =
  limit :: nat
  delay :: nat
  backoff :: backoff

record options =
  retries :: retries
  timeout :: "nat option"

type_synonym ('r, 's) step_fn = "'s \<Rightarrow> (string + 'r) \<times> nat \<times> 's"

text \<open>
  Modelled from the spec: ``\<open>stepName\<close> already has a \<open>succeeded\<close> record for this run''. The
  stored result of a step is the result of its first \<open>succeeded\<close> record that holds one.
\<close>

definition recorded_result :: "'r StepRecord list \<Rightarrow> string \<Rightarrow> 'r option" where
  "recorded_result recs stepName =
     (case find (\<lambda>r. step_name r = stepName \<and> step_status r = succeeded \<and> result r \<noteq> None)
             recs of
        None \<Rightarrow> None
      | Some r \<Rightarrow> result r)"

definition timed_out :: "options \<Rightarrow> nat \<Rightarrow> bool" where
  "timed_out opts d = (case timeout opts of None \<Rightarrow> False | Some t \<Rightarrow> t < d)"

definition attempt_time :: "options \<Rightarrow> nat \<Rightarrow> nat" where
  "attempt_time opts d = (case timeout opts of None \<Rightarrow> d | Some t \<Rightarrow> min t d)"

definition backoff_wait :: "options \<Rightarrow> nat \<Rightarrow> nat" where
  "backoff_wait opts k =
     (case backoff (retries opts) of
        constant_backoff \<Rightarrow> delay (retries opts)
      | exponential_backoff \<Rightarrow> delay (retries opts) * 2 ^ (k - 1))"

text \<open>
  Modelled from the spec: one attempt, number \<open>k\<close>, with its outcome, its record for the
  steps of the run, and the clock and outside state after it.
\<close>

definition run_attempt ::
  "string \<Rightarrow> ('r, 's) step_fn \<Rightarrow> options \<Rightarrow> nat \<Rightarrow> nat \<times> 's \<Rightarrow>
   (string + 'r) \<times> 'r StepRecord \<times> (nat \<times> 's)" where
  "run_attempt stepName fn opts k m =
     (let r = fn (snd m);
          d = attempt_time opts (fst (snd r));
          out = (if timed_out opts (fst (snd r)) then Inl ''timeout'' else fst r)
      in (out,
          \<lparr>step_name = stepName,
           step_status = (case out of Inl err \<Rightarrow> failed | Inr v \<Rightarrow> succeeded),
           result = (case out of Inl err \<Rightarrow> None | Inr v \<Rightarrow> Some v),
           step_error = (case out of Inl err \<Rightarrow> Some err | Inr v \<Rightarrow> None),
           attempt = k, startedAt = fst m, completedAt = fst m + d\<rparr>,
          (fst m + d, snd (snd r))))"

text \<open>
  Modelled from the spec: the attempts of one step, the first of them number \<open>k\<close>, with \<open>n\<close>
  retries left; a failed attempt is retried after the wait, a successful one ends the step.
\<close>

fun attempts ::
  "string \<Rightarrow> ('r, 's) step_fn \<Rightarrow> options \<Rightarrow> nat \<Rightarrow> nat \<Rightarrow> 'r StepRecord list \<Rightarrow> nat \<times> 's \<Rightarrow>
   (string + 'r) \<times> 'r StepRecord list \<times> (nat \<times> 's)" where
  "attempts stepName fn opts 0 k recs m =
     (let a = run_attempt stepName fn opts k m
      in (fst a, recs @ [fst (snd a)], snd (snd a)))"
| "attempts stepName fn opts (Suc n) k recs m =
     (let a = run_attempt stepName fn opts k m
      in case fst a of
           Inr v \<Rightarrow> (Inr v, recs @ [fst (snd a)], snd (snd a))
         | Inl err \<Rightarrow>
             attempts stepName fn opts n (Suc k) (recs @ [fst (snd a)])
               (fst (snd (snd a)) + backoff_wait opts k, snd (snd (snd a))))"

text \<open>
  Modelled from the spec: \<open>execute(run, stepName, fn, options)\<close> of the Step Executor, which
  stands for the platform's \<^verbatim>\<open>step.do\<close>.
\<close>

definition execute ::
  "('p, 'r) TaskRun \<Rightarrow> string \<Rightarrow> ('r, 's) step_fn \<Rightarrow> options \<Rightarrow> nat \<times> 's \<Rightarrow>
   (string + 'r) \<times> ('p, 'r) TaskRun \<times> (nat \<times> 's)" where
  "execute run stepName fn opts m =
     (case recorded_result (steps run) stepName of
        Some v \<Rightarrow> (Inr v, run, m)
      | None \<Rightarrow>
          (let r = attempts stepName fn opts (limit (retries opts)) 1 (steps run) m
           in (fst r, run\<lparr>steps := fst (snd r)\<rparr>, snd (snd r))))"

text \<open>
  Modelled from the spec: an invocation of a run. The body runs its steps; the run ends
  \<open>completed\<close> when the body returns and \<open>failed\<close> when a step raised.
\<close>

definition invoke ::
  "(('p, 'r) TaskRun \<Rightarrow> nat \<times> 's \<Rightarrow> (string + 'o) \<times> ('p, 'r) TaskRun \<times> (nat \<times> 's)) \<Rightarrow>
   ('p, 'r) TaskRun \<Rightarrow> nat \<times> 's \<Rightarrow> (string + 'o) \<times> ('p, 'r) TaskRun \<times> (nat \<times> 's)" where
  "invoke run_body run m =
     (let r = run_body (run\<lparr>run_status := running\<rparr>) m
      in (fst r,
          (fst (snd r))\<lparr>run_status := (case fst r of Inl err \<Rightarrow> run_failed
                                        | Inr v \<Rightarrow> completed)\<rparr>,
          snd (snd r)))"

text \<open>A call-counting stub: the step function \<open>fn\<close>, with a counter of its invocations.\<close>

definition counting :: "('r, 's) step_fn \<Rightarrow> ('r, nat \<times> 's) step_fn" where
  "counting fn cs =
     (let r = fn (snd cs) in (fst r, fst (snd r), (Suc (fst cs), snd (snd r))))"

definition attempt_fails :: "options \<Rightarrow> (string + 'r) \<times> nat \<times> 's \<Rightarrow> bool" where
  "attempt_fails opts r = (isl (fst r) \<or> timed_out opts (fst (snd r)))"

subsection \<open>\<^verbatim>\<open>ClaimsWorkflow.run\<close> on the step executor\<close>

text \<open>
  The four steps of \<^verbatim>\<open>ClaimsWorkflow.run\<close>, in the order of the source. The step functions
  are closures over the payload of the run and do not raise. What the platform adds is a
  parameter: \<open>dflt\<close>, the options of a step that declares none. The state outside of the
  run counts the invocations of step functions and holds the durations of the invocations to
  come. \<open>t\<close> is the value of \<^verbatim>\<open>new Date().toISOString()\<close>. A stored result of another step's
  shape cannot arise from this run function; the model raises there.
\<close>

datatype claims_step =
    Validated validation
  | Analysed rejection_analysis
  | Stored stored
  | Planned next_actions

type_synonym outside = "nat \<times> (nat \<Rightarrow> nat)"

definition timed :: "'r \<Rightarrow> ('r, nat \<Rightarrow> nat) step_fn" where
  "timed v ds = (Inr v, ds 0, \<lambda>i. ds (Suc i))"

definition step_body :: "'r \<Rightarrow> ('r, outside) step_fn" where
  "step_body v = counting (timed v)"

definition analysis_options :: options where
  "analysis_options =
     \<lparr>retries = \<lparr>limit = 3, delay = 5000, backoff = exponential_backoff\<rparr>,
      timeout = Some 120000\<rparr>"

definition validation_failed :: "validation \<Rightarrow> json" where
  "validation_failed v =
     JObj [(''status'', JStr ''failed''), (''reason'', JStr ''validation''),
           (''issues'', JArr (map JStr (issues v)))]"

definition claims_completed :: "payload \<Rightarrow> rejection_analysis \<Rightarrow> next_actions \<Rightarrow> string \<Rightarrow> json"
  where
  "claims_completed p a n t =
     JObj ([(''status'', JStr ''completed'')] @
           opt_field ''claimId'' (map_option JStr (claimId p)) @
           [(''analysis'',
               JObj [(''confidenceScore'', JNum (w_confidenceScore a)),
                     (''rootCauses'', JArr (map JStr (w_rootCauses a))),
                     (''recommendations'', JArr (map recommendation_json (w_recommendations a)))]),
            (''nextActions'', JArr (map JStr (actions n))),
            (''requiresHumanReview'', JBool (requiresHumanReview n)),
            (''processedAt'', JStr t)])"

type_synonym claims_run = "(payload, claims_step) TaskRun"

definition plan_next ::
  "options \<Rightarrow> string \<Rightarrow> rejection_analysis \<Rightarrow> claims_run \<times> (nat \<times> outside) \<Rightarrow>
   (string + json) \<times> claims_run \<times> (nat \<times> outside)" where
  "plan_next dflt t a rm =
     (let r4 = execute (fst rm) ''determine-next-actions''
                 (step_body (Planned (determine_next_actions a))) dflt (snd rm)
      in case fst r4 of
           Inl err \<Rightarrow> (Inl err, snd r4)
         | Inr s4 \<Rightarrow>
             (case s4 of
                Planned nextActions \<Rightarrow> (Inr (claims_completed (params (fst rm)) a nextActions t),
                                        snd r4)
              | _ \<Rightarrow> (Inl ''malformed step result'', snd r4)))"

definition store_and_plan ::
  "options \<Rightarrow> string \<Rightarrow> rejection_analysis \<Rightarrow> claims_run \<times> (nat \<times> outside) \<Rightarrow>
   (string + json) \<times> claims_run \<times> (nat \<times> outside)" where
  "store_and_plan dflt t a rm =
     (let r3 = execute (fst rm) ''store-analysis-results''
                 (step_body (Stored (store_analysis_results t))) dflt (snd rm)
      in case fst r3 of
           Inl err \<Rightarrow> (Inl err, snd r3)
         | Inr s3 \<Rightarrow> plan_next dflt t a (snd r3))"

definition analyse_and_rest ::
  "options \<Rightarrow> string \<Rightarrow> claims_run \<times> (nat \<times> outside) \<Rightarrow>
   (string + json) \<times> claims_run \<times> (nat \<times> outside)" where
  "analyse_and_rest dflt t rm =
     (let r2 = execute (fst rm) ''ai-analyze-rejection''
                 (step_body (Analysed (ai_analyze_rejection (params (fst rm)))))
                 analysis_options (snd rm)
      in case fst r2 of
           Inl err \<Rightarrow> (Inl err, snd r2)
         | Inr s2 \<Rightarrow>
             (case s2 of
                Analysed a \<Rightarrow> store_and_plan dflt t a (snd r2)
              | _ \<Rightarrow> (Inl ''malformed step result'', snd r2)))"

definition ClaimsWorkflow_run ::
  "options \<Rightarrow> string \<Rightarrow> claims_run \<Rightarrow> nat \<times> outside \<Rightarrow>
   (string + json) \<times> claims_run \<times> (nat \<times> outside)" where
  "ClaimsWorkflow_run dflt t run m =
     (let r1 = execute run ''validate-claim-data''
                 (step_body (Validated (validate_claim_data (params run)))) dflt m
      in case fst r1 of
           Inl err \<Rightarrow> (Inl err, snd r1)
         | Inr s1 \<Rightarrow>
             (case s1 of
                Validated v \<Rightarrow>
                  if \<not> isValid v then (Inr (validation_failed v), snd r1)
                  else analyse_and_rest dflt t (snd r1)
              | _ \<Rightarrow> (Inl ''malformed step result'', snd r1)))"

definition new_run :: "string \<Rightarrow> 'p \<Rightarrow> ('p, 'r) TaskRun" where
  "new_run i p = \<lparr>runId = i, params = p, steps = [], run_status = running\<rparr>"

subsection \<open>Observations and concrete inputs\<close>

text \<open>The counter \<^verbatim>\<open>claimsAnalyzed\<close> of a claims instance; an instance not yet created has analysed nothing.\<close>

definition claimsAnalyzed_of :: "world \<Rightarrow> string \<Rightarrow> nat" where
  "claimsAnalyzed_of w n =
     (case ClaimsAgent w n of None \<Rightarrow> 0 | Some a \<Rightarrow> claimsAnalyzed (state a))"

definition sample_claim_of :: "bool \<Rightarrow> sample_claim" where
  "sample_claim_of b = \<lparr>s_claimId = ''CLM-0-0'', hasErrors = b, errorType = ''coding''\<rparr>"



definition sample25000 :: sample_data where
  "sample25000 =
     \<lparr>claims = replicate 10001 (sample_claim_of True) @ replicate 14999 (sample_claim_of False),
      totalSampled = 25000\<rparr>"

text \<open>A complete claim whose rejection reason names none of the categories.\<close>

definition duplicate_claim :: payload where
  "duplicate_claim =
     empty_payload\<lparr>claimId := Some ''CLM-1'', payerId := Some ''PAYER-1'',
                    diagnosisCodes := Some [''J45.909''], procedureCodes := Some [],
                    rejectionReason := Some ''duplicate claim''\<rparr>"

definition env0 :: env where
  "env0 =
     \<lparr>now = ''2026-01-01T00:00:00.000Z'', uuid = ''00000000-0000-4000-8000-000000000001'',
      random = 1 / 10, CLAIMS_WORKFLOW = None, AUDIT_WORKFLOW = None,
      LEARNING_WORKFLOW = None\<rparr>"

text \<open>The request \<^verbatim>\<open>{action: "foo", payload: {}}\<close> as the hub receives it.\<close>

definition foo_request :: "envelope request" where
  "foo_request =
     \<lparr>pathname = ''/orchestrate'', http_method = ''POST'',
      body = Some \<lparr>action = ''foo'', e_payload = Some empty_payload\<rparr>\<rparr>"

definition fresh_master :: master_agent where
  "fresh_master = Master_initial ''2025-12-31T00:00:00.000Z'' ''master-orchestrator''"

text \<open>A step function that raises on every attempt, and a run whose first step has succeeded.\<close>

definition always_raises :: "('r, 's) step_fn" where
  "always_raises s = (Inl ''unavailable'', 10, s)"

definition validated_run :: claims_run where
  "validated_run =
     (new_run ''run-1'' duplicate_claim)
       \<lparr>steps :=
          [\<lparr>step_name = ''validate-claim-data'', step_status = succeeded,
            result = Some (Validated (validate_claim_data duplicate_claim)),
            step_error = None, attempt = 1, startedAt = 0, completedAt = 5\<rparr>]\<rparr>"

text \<open>Options of a platform that neither retries nor times out a step that declares none.\<close>

definition no_retries :: options where
  "no_retries =
     \<lparr>retries = \<lparr>limit = 0, delay = 0, backoff = constant_backoff\<rparr>, timeout = None\<rparr>"

section \<open>Properties\<close>

subsection \<open>Arithmetic of rounding\<close>

lemma floor_rat_numeral_divide [simp]:
  "\<lfloor>numeral a / numeral b :: rat\<rfloor> = numeral a div numeral b"
  by (metis floor_divide_of_int_eq of_int_numeral)




subsection \<open>Compliance scoring\<close>





text \<open>
  The classification reads the score before rounding: 10001 errors in 25000 claims give
  \<open>59.996\<close>, which is returned as \<open>60\<close> and classified as critical.
\<close>

lemma rounded_score_at_threshold:
  "complianceScore (analyze_compliance 25000 sample25000) = Some 60 \<and>
   riskLevel (analyze_compliance 25000 sample25000) = critical"
  by (simp add: analyze_compliance_def sample25000_def sample_claim_of_def Math_round_def
      classify_def Let_def floor_rat_numeral_divide)

subsection \<open>Success probability\<close>




text \<open>
  The agent computes the same probability; it stores the value itself and answers with the
  rounded one.
\<close>

lemma generateLearningPath_success_probability:
  assumes "body req = Some p" and "targetCertification p = Some c"
  shows "lp_success_probability (last (rows (fst (generateLearningPath e a req)))) =
           min (95 / 100)
             (6 / 10 + (case yearsOfExperience p of None \<Rightarrow> 1 | Some y \<Rightarrow> y) * (5 / 100))"
  using assms by (simp add: generateLearningPath_def sql_insert_def setState_def Let_def)

subsection \<open>Rejection analysis\<close>

lemma scan_reason_lengths:
  "length (f_recommendations (scan_reason l)) = length (f_rootCauses (scan_reason l))"
  by (simp add: scan_reason_def found_def Let_def)

lemma scan_reason_unmatched:
  assumes "\<not> matches_code l" and "\<not> matches_authorization l"
    and "\<not> matches_documentation l" and "\<not> matches_deadline l"
  shows "scan_reason l =
           \<lparr>f_rootCauses = [], f_recommendations = [], f_confidenceScore = 1 / 2,
            f_estimatedSavings = 0\<rparr>"
  using assms by (simp add: scan_reason_def)

text \<open>
  The agent's \<^verbatim>\<open>performAnalysis\<close> does what claim C3 says: a reason that matches no category
  gives the single root cause ``Requires manual review'', one recommendation with an Arabic
  and an English text, and confidence \<open>0.5\<close>.
\<close>

lemma performAnalysis_fallback:
  assumes "\<not> matches_code (toLowerCase r)" and "\<not> matches_authorization (toLowerCase r)"
    and "\<not> matches_documentation (toLowerCase r)" and "\<not> matches_deadline (toLowerCase r)"
  shows "rootCauses (performAnalysis r d p) = [''Requires manual review''] \<and>
         recommendations (performAnalysis r d p) = [rec_manual] \<and>
         confidenceScore (performAnalysis r d p) = 1 / 2 \<and>
         \<not> automationAvailable (performAnalysis r d p)"
  using assms by (simp add: performAnalysis_def scan_reason_unmatched)

text \<open>
  Claim C3 on the workflow step \<^verbatim>\<open>ai-analyze-rejection\<close>: the step computes the confidence from
  \<^verbatim>\<open>recommendations.length > 0\<close> after it has pushed the fallback recommendation, so that the
  branch \<open>0.5\<close> is never taken. For the rejection reason ``duplicate claim'', which names
  no category, the step returns the manual-review root cause with confidence \<open>0.85\<close> and
  \<^verbatim>\<open>automationAvailable = true\<close>.
\<close>

theorem C3_workflow_fallback_confidence:
  "w_rootCauses (ai_analyze_rejection duplicate_claim) = [''Requires manual review''] \<and>
   w_recommendations (ai_analyze_rejection duplicate_claim) = [w_rec_manual] \<and>
   w_confidenceScore (ai_analyze_rejection duplicate_claim) = 85 / 100 \<and>
   w_confidenceScore (ai_analyze_rejection duplicate_claim) \<noteq> 1 / 2 \<and>
   w_automationAvailable (ai_analyze_rejection duplicate_claim)"
  by (simp add: ai_analyze_rejection_def scan_rejection_def duplicate_claim_def
      empty_payload_def toLowerCase_def toLowerCase_char_def upper_letters_def
      lower_letters_def Let_def)

text \<open>In the workflow step no input reaches the confidence \<open>0.5\<close>.\<close>

lemma scan_rejection_lengths:
  "length (snd (scan_rejection r)) = length (fst (scan_rejection r))"
  by (simp add: scan_rejection_def Let_def)

lemma ai_analyze_rejection_confidence:
  "w_confidenceScore (ai_analyze_rejection p) = 85 / 100 \<and>
   w_automationAvailable (ai_analyze_rejection p)"
proof -
  have "snd (scan_rejection r) \<noteq> []" if "fst (scan_rejection r) \<noteq> []" for r
    using that scan_rejection_lengths[of r] by (cases "snd (scan_rejection r)") auto
  then show ?thesis
    by (simp add: ai_analyze_rejection_def Let_def split: option.splits)
qed

text \<open>
  Claim C8. For the rejection reason ``missing prior authorization'' the analysis of the
  claims agent returns the root cause ``Missing prior authorization'' (and no other),
  confidence \<open>0.9\<close>, exactly one recommendation, which has an Arabic and an English text, and
  \<^verbatim>\<open>automationAvailable = true\<close>, whatever the diagnosis and procedure codes.
\<close>

theorem C8_missing_prior_authorization:
  "''Missing prior authorization'' \<in>
     set (rootCauses (performAnalysis ''missing prior authorization'' d p)) \<and>
   rootCauses (performAnalysis ''missing prior authorization'' d p) =
     [''Missing prior authorization''] \<and>
   confidenceScore (performAnalysis ''missing prior authorization'' d p) = 9 / 10 \<and>
   length (recommendations (performAnalysis ''missing prior authorization'' d p)) = 1 \<and>
   recommendations (performAnalysis ''missing prior authorization'' d p) = [rec_authorization] \<and>
   ar rec_authorization \<noteq> [] \<and> en rec_authorization \<noteq> [] \<and>
   automationAvailable (performAnalysis ''missing prior authorization'' d p)"
  by (simp add: performAnalysis_def scan_reason_def toLowerCase_def toLowerCase_char_def
      upper_letters_def lower_letters_def matches_code_def matches_authorization_def
      matches_documentation_def matches_deadline_def found_def rec_authorization_def Let_def)

text \<open>
  Claim C10. For every rejection reason and all code lists, the analysis of the claims agent
  returns at least one root cause and as many recommendations as root causes; neither list
  is empty.
\<close>

theorem C10_root_causes_and_recommendations:
  "rootCauses (performAnalysis r d p) \<noteq> [] \<and>
   recommendations (performAnalysis r d p) \<noteq> [] \<and>
   length (recommendations (performAnalysis r d p)) = length (rootCauses (performAnalysis r d p))"
  using scan_reason_lengths [of "toLowerCase r"]
  by (auto simp add: performAnalysis_def Let_def)

subsection \<open>Counters of the agents\<close>

lemma analyzeClaim_state:
  "state (fst (analyzeClaim e a req)) =
     (case body req of
        None \<Rightarrow> state a
      | Some p \<Rightarrow>
          (state a)\<lparr>claimsAnalyzed := claimsAnalyzed (state a) + 1,
                    totalSavings :=
                      totalSavings (state a) +
                      estimatedSavings
                        (performAnalysis (or_else (rejectionReason p) [])
                           (case diagnosisCodes p of None \<Rightarrow> [] | Some ds \<Rightarrow> ds)
                           (case procedureCodes p of None \<Rightarrow> [] | Some ps \<Rightarrow> ps))\<rparr>)"
  by (simp add: analyzeClaim_def sql_insert_def setState_def Let_def split: option.splits)

lemma Claims_onRequest_counters:
  "requestCount (state (fst (Claims_onRequest e a req))) = requestCount (state a) + 1"
  "claimsAnalyzed (state a) \<le> claimsAnalyzed (state (fst (Claims_onRequest e a req)))"
  by (simp_all add: Claims_onRequest_def Let_def analyzeClaim_state setState_def
      split: option.splits)

lemma simulateAudit_counters:
  "requestCount (state (fst (simulateAudit e a req))) = requestCount (state a)"
  "auditsCompleted (state a) \<le> auditsCompleted (state (fst (simulateAudit e a req)))"
  by (simp_all add: simulateAudit_def sql_insert_def setState_def Let_def split: option.splits)

lemma Audit_onRequest_counters:
  "requestCount (state (fst (Audit_onRequest e a req))) = requestCount (state a) + 1"
  "auditsCompleted (state a) \<le> auditsCompleted (state (fst (Audit_onRequest e a req)))"
  using simulateAudit_counters
    [where e = e and req = req and
       a = "setState ((state a)\<lparr>lastActivity := now e,
                                requestCount := requestCount (state a) + 1\<rparr>) a"]
  by (simp_all add: Audit_onRequest_def Let_def setState_def)

lemma generateLearningPath_counters:
  "requestCount (state (fst (generateLearningPath e a req))) = requestCount (state a)"
  "pathsGenerated (state a) \<le> pathsGenerated (state (fst (generateLearningPath e a req)))"
  by (simp_all add: generateLearningPath_def sql_insert_def setState_def Let_def
      split: option.splits)

lemma Learning_onRequest_counters:
  "requestCount (state (fst (Learning_onRequest e a req))) = requestCount (state a) + 1"
  "pathsGenerated (state a) \<le> pathsGenerated (state (fst (Learning_onRequest e a req)))"
  using generateLearningPath_counters
    [where e = e and req = req and
       a = "setState ((state a)\<lparr>lastActivity := now e,
                                requestCount := requestCount (state a) + 1\<rparr>) a"]
  by (simp_all add: Learning_onRequest_def Let_def setState_def)

lemma orchestrated_state: "state (fst (orchestrated e a i act r)) = state a"
  by (simp add: orchestrated_def split: sum.splits)

lemma handleOrchestrate_state: "state (fst (fst (handleOrchestrate e d w a req))) = state a"
  by (simp add: handleOrchestrate_def Let_def orchestrated_state sql_insert_def
      split: option.splits)

lemma Master_onRequest_counter:
  "requestCount (state (fst (fst (Master_onRequest e d w a req)))) = requestCount (state a) + 1"
  by (simp add: Master_onRequest_def Let_def handleOrchestrate_state setState_def)

text \<open>
  Claim C9. Whatever the request, the handler of each of the four kinds of agent leaves
  every counter of its instance at least as large as it was: \<^verbatim>\<open>requestCount\<close> for all of
  them, and \<^verbatim>\<open>claimsAnalyzed\<close>, \<^verbatim>\<open>auditsCompleted\<close> and \<^verbatim>\<open>pathsGenerated\<close> for the claims, audit
  and learning agent. This includes the requests on which the handler throws.
\<close>

theorem C9_counters_never_decrease:
  "requestCount (state m) \<le> requestCount (state (fst (fst (Master_onRequest e d w m mreq)))) \<and>
   requestCount (state c) \<le> requestCount (state (fst (Claims_onRequest e c req))) \<and>
   claimsAnalyzed (state c) \<le> claimsAnalyzed (state (fst (Claims_onRequest e c req))) \<and>
   requestCount (state a) \<le> requestCount (state (fst (Audit_onRequest e a req))) \<and>
   auditsCompleted (state a) \<le> auditsCompleted (state (fst (Audit_onRequest e a req))) \<and>
   requestCount (state l) \<le> requestCount (state (fst (Learning_onRequest e l req))) \<and>
   pathsGenerated (state l) \<le> pathsGenerated (state (fst (Learning_onRequest e l req)))"
  by (simp add: Master_onRequest_counter Claims_onRequest_counters Audit_onRequest_counters
      Learning_onRequest_counters)

subsection \<open>The hub and an unknown action\<close>

text \<open>A call of a downstream agent always shows in its namespace: the instance has counted it.\<close>

lemma Claims_fetch_visible: "fst (Claims_fetch e ns n req) \<noteq> ns"
proof
  assume unchanged: "fst (Claims_fetch e ns n req) = ns"
  let ?a = "getAgentByName ns (Claims_initial (now e)) n"
  have "ns n = Some (fst (Claims_onRequest e ?a req))"
    using unchanged by (simp add: Claims_fetch_def Let_def fun_upd_idem_iff)
  then have "?a = fst (Claims_onRequest e ?a req)"
    by (cases "ns n") (simp_all add: getAgentByName_def)
  then have "requestCount (state ?a) = requestCount (state (fst (Claims_onRequest e ?a req)))"
    by simp
  then show False
    by (simp add: Claims_onRequest_counters)
qed

lemma Audit_fetch_visible: "fst (Audit_fetch e ns n req) \<noteq> ns"
proof
  assume unchanged: "fst (Audit_fetch e ns n req) = ns"
  let ?a = "getAgentByName ns (Audit_initial (now e)) n"
  have "ns n = Some (fst (Audit_onRequest e ?a req))"
    using unchanged by (simp add: Audit_fetch_def Let_def fun_upd_idem_iff)
  then have "?a = fst (Audit_onRequest e ?a req)"
    by (cases "ns n") (simp_all add: getAgentByName_def)
  then have "requestCount (state ?a) = requestCount (state (fst (Audit_onRequest e ?a req)))"
    by simp
  then show False
    by (simp add: Audit_onRequest_counters)
qed

lemma Learning_fetch_visible: "fst (Learning_fetch e ns n req) \<noteq> ns"
proof
  assume unchanged: "fst (Learning_fetch e ns n req) = ns"
  let ?a = "getAgentByName ns (Learning_initial (now e)) n"
  have "ns n = Some (fst (Learning_onRequest e ?a req))"
    using unchanged by (simp add: Learning_fetch_def Let_def fun_upd_idem_iff)
  then have "?a = fst (Learning_onRequest e ?a req)"
    by (cases "ns n") (simp_all add: getAgentByName_def)
  then have "requestCount (state ?a) = requestCount (state (fst (Learning_onRequest e ?a req)))"
    by simp
  then show False
    by (simp add: Learning_onRequest_counters)
qed

text \<open>
  Claim C2, as stated, fails: the hub counts the request and logs it before it looks at the
  action. On \<^verbatim>\<open>{action: "foo", payload: {}}\<close> a fresh hub instance answers 400, and its
  \<^verbatim>\<open>requestCount\<close> and its request log have changed.
\<close>

theorem C2_unknown_action_mutates_hub:
  "status (snd (Master_onRequest env0 env0 empty_world fresh_master foo_request)) = 400 \<and>
   requestCount (state (fst (fst (Master_onRequest env0 env0 empty_world fresh_master
     foo_request)))) \<noteq> requestCount (state fresh_master) \<and>
   lastActivity (state (fst (fst (Master_onRequest env0 env0 empty_world fresh_master
     foo_request)))) \<noteq> lastActivity (state fresh_master) \<and>
   rows (fst (fst (Master_onRequest env0 env0 empty_world fresh_master foo_request))) \<noteq>
     rows fresh_master"
  by (simp add: Master_onRequest_def handleOrchestrate_def Let_def setState_def sql_insert_def
      foo_request_def fresh_master_def Master_initial_def jsonResponse_def env0_def)

text \<open>
  Claim C2, amended. For an orchestration request (\<^verbatim>\<open>POST /orchestrate\<close>) whose action is none
  of \<^verbatim>\<open>analyze_claim\<close>, \<^verbatim>\<open>run_audit\<close>, \<^verbatim>\<open>generate_learning_path\<close>, the hub answers 400 with the
  error ``Unknown action'' and the action, and the namespaces of the downstream agents are
  unchanged: no downstream agent was called. The hub's own instance changes in exactly this
  way: \<^verbatim>\<open>requestCount\<close> is incremented, \<^verbatim>\<open>lastActivity\<close> is set to the time of the request, and
  one row for the request, without a response, is appended to its request log.
\<close>

theorem C2_unknown_action:
  assumes "pathname req = ''/orchestrate''" and "http_method req = ''POST''"
    and "body req = Some b"
    and "action b \<noteq> ''analyze_claim''" and "action b \<noteq> ''run_audit''"
    and "action b \<noteq> ''generate_learning_path''"
  shows "Master_onRequest e d w a req =
           ((a\<lparr>state := (state a)\<lparr>lastActivity := now e,
                                   requestCount := requestCount (state a) + 1\<rparr>,
               rows := rows a @
                         [\<lparr>rq_id = uuid e, rq_type = action b, rq_payload = e_payload b,
                           rq_response = None, rq_created_at = now e\<rparr>]\<rparr>,
             w),
            jsonResponse
              (JObj [(''error'', JStr ''Unknown action''), (''action'', JStr (action b))]) 400)"
  using assms
  by (simp add: Master_onRequest_def handleOrchestrate_def Let_def setState_def sql_insert_def)

theorem C2_unknown_action_witness:
  "pathname foo_request = ''/orchestrate'' \<and> http_method foo_request = ''POST'' \<and>
   snd (Master_onRequest env0 env0 empty_world fresh_master foo_request) =
     jsonResponse (JObj [(''error'', JStr ''Unknown action''), (''action'', JStr ''foo'')]) 400 \<and>
   snd (fst (Master_onRequest env0 env0 empty_world fresh_master foo_request)) = empty_world \<and>
   requestCount (state (fst (fst (Master_onRequest env0 env0 empty_world fresh_master
     foo_request)))) = 1 \<and>
   length (rows (fst (fst (Master_onRequest env0 env0 empty_world fresh_master
     foo_request)))) = 1"
  using C2_unknown_action
    [of foo_request "\<lparr>action = ''foo'', e_payload = Some empty_payload\<rparr>" env0 env0 empty_world
       fresh_master]
  by (simp add: foo_request_def fresh_master_def Master_initial_def)

subsection \<open>The default instance of the claims route\<close>

lemma Claims_onRequest_analyze:
  "claimsAnalyzed (state (fst (Claims_onRequest e a (internal_post ''/analyze'' p)))) =
     claimsAnalyzed (state a) + 1"
  by (simp add: Claims_onRequest_def Let_def analyzeClaim_state setState_def internal_post_def)

lemma post_claims_analyze_default:
  assumes "claimId p = None"
  shows "ClaimsAgent (fst (post_claims_analyze e w (Some p))) =
           (ClaimsAgent w)
             (''claims-default'' \<mapsto>
                fst (Claims_onRequest e
                       (getAgentByName (ClaimsAgent w) (Claims_initial (now e)) ''claims-default'')
                       (internal_post ''/analyze'' p)))"
  using assms by (simp add: post_claims_analyze_def Let_def or_else_def Claims_fetch_def)

lemma post_claims_analyze_default_count:
  assumes "claimId p = None"
  shows "claimsAnalyzed_of (fst (post_claims_analyze e w (Some p))) ''claims-default'' =
           claimsAnalyzed_of w ''claims-default'' + 1"
  unfolding claimsAnalyzed_of_def post_claims_analyze_default[OF assms]
  by (simp add: Claims_onRequest_analyze getAgentByName_def Claims_initial_def
      split: option.splits)

text \<open>
  Claim C7. A request to \<^verbatim>\<open>/api/v1/claims/analyze\<close> whose body has no \<^verbatim>\<open>claimId\<close> is handled by
  the instance \<^verbatim>\<open>claims-default\<close>. Two such requests in sequence reach the same instance:
  its \<^verbatim>\<open>claimsAnalyzed\<close> grows by one with each of them, from 0 to 1 to 2 when the instance
  did not exist before, and no other claims instance is created or changed.
\<close>

theorem C7_default_instance_key:
  assumes "claimId p1 = None" and "claimId p2 = None"
  shows "let w1 = fst (post_claims_analyze e1 w (Some p1));
             w2 = fst (post_claims_analyze e2 w1 (Some p2))
         in ClaimsAgent w1 =
              (ClaimsAgent w)
                (''claims-default'' \<mapsto>
                   fst (Claims_onRequest e1
                          (getAgentByName (ClaimsAgent w) (Claims_initial (now e1))
                             ''claims-default'')
                          (internal_post ''/analyze'' p1))) \<and>
            claimsAnalyzed_of w1 ''claims-default'' = claimsAnalyzed_of w ''claims-default'' + 1 \<and>
            claimsAnalyzed_of w2 ''claims-default'' = claimsAnalyzed_of w ''claims-default'' + 2 \<and>
            (ClaimsAgent w ''claims-default'' = None \<longrightarrow>
               claimsAnalyzed_of w ''claims-default'' = 0 \<and>
               claimsAnalyzed_of w1 ''claims-default'' = 1 \<and>
               claimsAnalyzed_of w2 ''claims-default'' = 2) \<and>
            (\<forall>n. n \<noteq> ''claims-default'' \<longrightarrow> ClaimsAgent w2 n = ClaimsAgent w n)"
proof -
  have initial: "ClaimsAgent w ''claims-default'' = None \<Longrightarrow>
      claimsAnalyzed_of w ''claims-default'' = 0"
    by (simp add: claimsAnalyzed_of_def)
  show ?thesis
    unfolding Let_def
    using initial
    by (simp add: post_claims_analyze_default_count[OF assms(1)]
        post_claims_analyze_default_count[OF assms(2)]
        post_claims_analyze_default[OF assms(1)] post_claims_analyze_default[OF assms(2)])
qed

theorem C7_default_instance_key_witness:
  "claimId empty_payload = None \<and>
   claimsAnalyzed_of empty_world ''claims-default'' = 0 \<and>
   claimsAnalyzed_of (fst (post_claims_analyze env0 empty_world (Some empty_payload)))
     ''claims-default'' = 1 \<and>
   claimsAnalyzed_of
     (fst (post_claims_analyze env0
        (fst (post_claims_analyze env0 empty_world (Some empty_payload))) (Some empty_payload)))
     ''claims-default'' = 2"
  using C7_default_instance_key [of empty_payload empty_payload env0 empty_world env0]
  by (simp add: empty_payload_def empty_world_def Let_def)

subsection \<open>The step executor: replay and retries\<close>

lemma find_app: "find P (xs @ ys) = (case find P xs of None \<Rightarrow> find P ys | Some x \<Rightarrow> Some x)"
  by (induction xs) auto

lemma find_holds: "find P xs = Some x \<Longrightarrow> P x"
  by (induction xs) (auto split: if_splits)

lemma recorded_result_append:
  "recorded_result (recs @ added) n =
     (case recorded_result recs n of Some v \<Rightarrow> Some v | None \<Rightarrow> recorded_result added n)"
  by (auto simp add: recorded_result_def find_app split: option.splits dest: find_holds)

lemma run_attempt_counting:
  "fst (snd (snd (snd (run_attempt stepName (counting fn) opts k (clock, (c, s)))))) = Suc c"
  "snd (snd (snd (snd (run_attempt stepName (counting fn) opts k (clock, (c, s)))))) = snd (snd (fn s))"
  by (simp_all add: run_attempt_def counting_def Let_def)

lemma run_attempt_record:
  "step_name (fst (snd (run_attempt stepName fn opts k m))) = stepName"
  "attempt (fst (snd (run_attempt stepName fn opts k m))) = k"
  by (simp_all add: run_attempt_def Let_def)

lemma run_attempt_fails:
  assumes "attempt_fails opts (fn s)"
  shows "isl (fst (run_attempt stepName (counting fn) opts k (clock, (c, s))))"
    and "step_status (fst (snd (run_attempt stepName (counting fn) opts k (clock, (c, s))))) = failed"
  using assms by (auto simp add: run_attempt_def counting_def attempt_fails_def Let_def isl_def)

lemma attempts_all_fail:
  assumes "\<forall>s. P s \<longrightarrow> attempt_fails opts (fn s) \<and> P (snd (snd (fn s)))" and "P s"
  shows "isl (fst (attempts stepName (counting fn) opts n k recs (clock, (c, s)))) \<and>
         fst (snd (snd (snd (attempts stepName (counting fn) opts n k recs (clock, (c, s)))))) = c + n + 1 \<and>
         (\<exists>added. fst (snd (attempts stepName (counting fn) opts n k recs (clock, (c, s)))) = recs @ added \<and>
            map attempt added = [k ..< k + n + 1] \<and>
            list_all (\<lambda>r. step_name r = stepName \<and> step_status r = failed) added)"
  using assms(2)
proof (induction n arbitrary: k recs clock c s)
  case 0
  have fails: "attempt_fails opts (fn s)" using assms(1) 0 by simp
  show ?case
    using run_attempt_fails[where fn = fn, OF fails, of stepName k clock c]
    by (simp add: run_attempt_counting run_attempt_record Let_def)
next
  case (Suc n)
  have fails: "attempt_fails opts (fn s)" and next_ok: "P (snd (snd (fn s)))"
    using assms(1) Suc.prems by simp_all
  let ?a = "run_attempt stepName (counting fn) opts k (clock, (c, s))"
  obtain err where err: "fst ?a = Inl err"
    using run_attempt_fails(1)[where fn = fn, OF fails, of stepName k clock c] by (auto simp: isl_def)
  have st: "snd (snd (snd ?a)) = (Suc c, snd (snd (fn s)))"
    by (simp add: prod_eq_iff run_attempt_counting)
  let ?rest = "attempts stepName (counting fn) opts n (Suc k) (recs @ [fst (snd ?a)])
                 (fst (snd (snd ?a)) + backoff_wait opts k, (Suc c, snd (snd (fn s))))"
  have unfold: "attempts stepName (counting fn) opts (Suc n) k recs (clock, (c, s)) = ?rest"
    using err st by (simp add: Let_def)
  from Suc.IH[OF next_ok, of "Suc k" "recs @ [fst (snd ?a)]" "fst (snd (snd ?a)) + backoff_wait opts k" "Suc c"]
  obtain added where added: "isl (fst ?rest)" "fst (snd (snd (snd ?rest))) = Suc c + n + 1"
     "fst (snd ?rest) = (recs @ [fst (snd ?a)]) @ added" "map attempt added = [Suc k ..< Suc k + n + 1]"
     "list_all (\<lambda>r. step_name r = stepName \<and> step_status r = failed) added"
    by blast
  have a: "fst (snd ?rest) = recs @ (fst (snd ?a) # added)" using added(3) by simp
  have b: "map attempt (fst (snd ?a) # added) = [k ..< k + Suc n + 1]"
    using added(4) by (simp add: run_attempt_record upt_conv_Cons)
  have c: "list_all (\<lambda>r. step_name r = stepName \<and> step_status r = failed) (fst (snd ?a) # added)"
    using added(5) run_attempt_fails(2)[where fn = fn, OF fails, of stepName k clock c]
    by (simp add: run_attempt_record)
  have d: "fst (snd (snd (snd ?rest))) = c + Suc n + 1" using added(2) by simp
  show ?case
    unfolding unfold using added(1) a b c d by blast
qed


lemma attempts_extends:
  "\<exists>added. fst (snd (attempts stepName fn opts n k recs m)) = recs @ added"
proof (induction n arbitrary: k recs m)
  case 0
  show ?case by (simp add: Let_def)
next
  case (Suc n)
  let ?a = "run_attempt stepName fn opts k m"
  show ?case
  proof (cases "fst ?a")
    case (Inr v)
    then show ?thesis by (simp add: Let_def)
  next
    case (Inl err)
    from Suc.IH[of "Suc k" "recs @ [fst (snd ?a)]"
        "(fst (snd (snd ?a)) + backoff_wait opts k, snd (snd (snd ?a)))"]
    obtain added where "fst (snd (attempts stepName fn opts n (Suc k) (recs @ [fst (snd ?a)])
        (fst (snd (snd ?a)) + backoff_wait opts k, snd (snd (snd ?a))))) = (recs @ [fst (snd ?a)]) @ added"
      by blast
    then show ?thesis using Inl by (simp add: Let_def)
  qed
qed

lemma execute_extends:
  "\<exists>added. steps (fst (snd (execute run stepName fn opts m))) = steps run @ added"
  using attempts_extends[of stepName fn opts "limit (retries opts)" 1 "steps run" m]
  by (auto simp add: execute_def Let_def split: option.splits)

lemma execute_replay:
  assumes "recorded_result (steps run) stepName = Some v"
  shows "execute run stepName fn opts m = (Inr v, run, m)"
  using assms by (simp add: execute_def)

lemma execute_keeps_record:
  assumes "recorded_result (steps run) stepName = Some v"
  shows "recorded_result (steps (fst (snd (execute run other fn opts m)))) stepName = Some v"
proof -
  obtain added where "steps (fst (snd (execute run other fn opts m))) = steps run @ added"
    using execute_extends by blast
  then show ?thesis using assms by (simp add: recorded_result_append)
qed

text \<open>
  Claim C5 (on the executor modelled from the spec). When the run holds a succeeded record of
  step \<open>stepName\<close> with result \<open>v\<close>, executing the step again returns \<open>v\<close> and changes
  neither the run nor the state outside of it: the step function is not invoked, as the
  counter of the call-counting stub shows. Executing any step of the run, this one or another,
  leaves the recorded result of \<open>stepName\<close> as it is.
\<close>

theorem C5_idempotent_replay:
  assumes "recorded_result (steps run) stepName = Some v"
  shows "execute run stepName fn opts m = (Inr v, run, m) \<and>
         execute run stepName (counting fn) opts (clock, (c, s)) = (Inr v, run, (clock, (c, s))) \<and>
         recorded_result (steps (fst (snd (execute run other fn' opts' m')))) stepName = Some v"
  using assms execute_keeps_record[OF assms] by (simp add: execute_replay)

theorem C5_idempotent_replay_witness:
  "recorded_result (steps validated_run) ''validate-claim-data'' =
     Some (Validated (validate_claim_data duplicate_claim)) \<and>
   execute validated_run ''validate-claim-data'' (counting always_raises) analysis_options
     (0, (0, ())) =
     (Inr (Validated (validate_claim_data duplicate_claim)), validated_run, (0, (0, ())))"
proof -
  have recorded: "recorded_result (steps validated_run) ''validate-claim-data'' =
      Some (Validated (validate_claim_data duplicate_claim))"
    by (simp add: validated_run_def new_run_def recorded_result_def)
  show ?thesis
    by (intro conjI recorded)
      (rule C5_idempotent_replay[OF recorded, THEN conjunct2, THEN conjunct1])
qed

lemma run_attempt_success:
  assumes "fst (run_attempt stepName fn opts k m) = Inr v"
  shows "recorded_result [fst (snd (run_attempt stepName fn opts k m))] stepName = Some v"
  using assms by (auto simp add: run_attempt_def recorded_result_def Let_def split: if_splits sum.splits)

lemma run_attempt_failure:
  assumes "fst (run_attempt stepName fn opts k m) = Inl err"
  shows "recorded_result [fst (snd (run_attempt stepName fn opts k m))] n = None"
  using assms by (auto simp add: run_attempt_def recorded_result_def Let_def split: if_splits sum.splits)

lemma attempts_records_success:
  assumes "fst (attempts stepName fn opts n k recs m) = Inr v"
    and "recorded_result recs stepName = None"
  shows "recorded_result (fst (snd (attempts stepName fn opts n k recs m))) stepName = Some v"
  using assms
proof (induction n arbitrary: k recs m)
  case 0
  then show ?case
    by (simp add: Let_def recorded_result_append run_attempt_success)
next
  case (Suc n)
  let ?a = "run_attempt stepName fn opts k m"
  show ?case
  proof (cases "fst ?a")
    case (Inr w)
    then show ?thesis using Suc.prems
      by (simp add: Let_def recorded_result_append run_attempt_success)
  next
    case (Inl err)
    have "recorded_result (recs @ [fst (snd ?a)]) stepName = None"
      using Suc.prems(2) run_attempt_failure[OF Inl] by (simp add: recorded_result_append)
    then show ?thesis using Suc.IH[of "Suc k" "recs @ [fst (snd ?a)]"] Suc.prems(1) Inl
      by (simp add: Let_def)
  qed
qed

lemma execute_records_success:
  assumes "fst (execute run stepName fn opts m) = Inr v"
  shows "recorded_result (steps (fst (snd (execute run stepName fn opts m)))) stepName = Some v"
proof (cases "recorded_result (steps run) stepName")
  case None
  then show ?thesis
    using assms attempts_records_success[of stepName fn opts "limit (retries opts)" 1 "steps run" m v]
    by (simp add: execute_def Let_def)
next
  case (Some w)
  then show ?thesis using assms by (simp add: execute_def)
qed

lemma recorded_result_all_failed:
  "list_all (\<lambda>r. step_status r = failed) recs \<Longrightarrow> recorded_result recs n = None"
  by (induction recs) (auto simp add: recorded_result_def)

lemma retry_exhaustion:
  fixes run :: "('p, 'r) TaskRun"
  assumes "recorded_result (steps run) stepName = None"
    and "limit (retries opts) = N"
    and "P s"
    and "\<forall>s. P s \<longrightarrow> attempt_fails opts (fn s) \<and> P (snd (snd (fn s)))"
  shows "let r = execute run stepName (counting fn) opts (clock, (c, s));
             i = invoke (\<lambda>r. execute r stepName (counting fn) opts) run (clock, (c, s)) in
         isl (fst r) \<and> fst (snd (snd (snd r))) = c + N + 1 \<and>
         (\<exists>added. steps (fst (snd r)) = steps run @ added \<and> map attempt added = [1 ..< N + 2] \<and>
            list_all (\<lambda>r. step_name r = stepName \<and> step_status r = failed) added) \<and>
         recorded_result (steps (fst (snd r))) stepName = None \<and>
         isl (fst i) \<and> run_status (fst (snd i)) = run_failed \<and> fst (snd (snd (snd i))) = c + N + 1"
proof -
  let ?m = "(clock, (c, s))"
  let ?t = "attempts stepName (counting fn) opts N 1 (steps run) ?m"
  have exec: "execute r' stepName (counting fn) opts ?m = (fst ?t, r'\<lparr>steps := fst (snd ?t)\<rparr>, snd (snd ?t))"
    if "steps r' = steps run" for r' :: "('p, 'r) TaskRun"
    using that assms(1,2) by (simp add: execute_def Let_def)
  from attempts_all_fail[OF assms(4,3), of stepName N 1 "steps run" clock c]
  obtain added where t: "isl (fst ?t)" "fst (snd (snd (snd ?t))) = c + N + 1"
      "fst (snd ?t) = steps run @ added" "map attempt added = [1 ..< 1 + N + 1]"
      "list_all (\<lambda>r. step_name r = stepName \<and> step_status r = failed) added"
    by blast
  have "list_all (\<lambda>r. step_status r = failed) added"
    using t(5) by (simp add: list_all_iff)
  then have none: "recorded_result added stepName = None"
    by (rule recorded_result_all_failed)
  have after: "recorded_result (steps run @ added) stepName = None"
    using assms(1) none by (simp add: recorded_result_append)
  have inv: "invoke (\<lambda>r. execute r stepName (counting fn) opts) run ?m =
      (fst ?t, run\<lparr>run_status := run_failed, steps := fst (snd ?t)\<rparr>, snd (snd ?t))"
    using t(1) exec[of "run\<lparr>run_status := running\<rparr>"]
    by (auto simp add: invoke_def Let_def isl_def)
  show ?thesis
    unfolding Let_def exec[OF refl] inv
    using t after by auto
qed


text \<open>
  Claim C6 (on the executor modelled from the spec). Let the run hold no succeeded record of
  the step, let \<open>retries.limit = N\<close>, and let the step function fail (raise, or run longer
  than the timeout) at the present outside state and at every state that a failed attempt
  leaves behind. Then executing the step invokes the function exactly \<open>N + 1\<close> times, as the
  counter of the call-counting stub shows; it appends \<open>N + 1\<close> records of the step, numbered
  \<open>1, \<dots>, N + 1\<close>, all of them failed; the step raises, and a run whose body is this step
  ends failed.
\<close>

theorem C6_retry_exhaustion:
  fixes run :: "('p, 'r) TaskRun"
  assumes "recorded_result (steps run) stepName = None"
    and "limit (retries opts) = N"
    and "P s"
    and "\<forall>s. P s \<longrightarrow> attempt_fails opts (fn s) \<and> P (snd (snd (fn s)))"
  shows "let r = execute run stepName (counting fn) opts (clock, (c, s));
             i = invoke (\<lambda>r. execute r stepName (counting fn) opts) run (clock, (c, s))
         in isl (fst r) \<and> fst (snd (snd (snd r))) = c + N + 1 \<and>
            (\<exists>added. steps (fst (snd r)) = steps run @ added \<and>
               map attempt added = [1 ..< N + 2] \<and>
               list_all (\<lambda>r. step_name r = stepName \<and> step_status r = failed) added) \<and>
            recorded_result (steps (fst (snd r))) stepName = None \<and>
            isl (fst i) \<and> run_status (fst (snd i)) = run_failed \<and>
            fst (snd (snd (snd i))) = c + N + 1"
  using assms by (rule retry_exhaustion)

theorem C6_retry_exhaustion_witness:
  "recorded_result (steps (new_run ''run-2'' duplicate_claim :: claims_run))
     ''ai-analyze-rejection'' = None \<and>
   limit (retries analysis_options) = 3 \<and>
   attempt_fails analysis_options (always_raises () :: (string + claims_step) \<times> nat \<times> unit) \<and>
   fst (snd (snd (snd (execute (new_run ''run-2'' duplicate_claim :: claims_run)
     ''ai-analyze-rejection'' (counting always_raises) analysis_options (0, (0, ())))))) = 4 \<and>
   run_status (fst (snd (invoke
     (\<lambda>r. execute r ''ai-analyze-rejection'' (counting always_raises) analysis_options)
     (new_run ''run-2'' duplicate_claim :: claims_run) (0, (0, ()))))) = run_failed"
  using C6_retry_exhaustion
    [where P = "\<lambda>u. True" and fn = "always_raises :: (claims_step, unit) step_fn"
       and opts = analysis_options and N = 3 and s = "()" and stepName = "''ai-analyze-rejection''"
       and run = "new_run ''run-2'' duplicate_claim :: claims_run" and clock = 0 and c = 0]
  by (simp add: new_run_def recorded_result_def analysis_options_def always_raises_def
      attempt_fails_def Let_def)

lemma execute_params: "params (fst (snd (execute run n fn opts m))) = params run"
  by (simp add: execute_def Let_def split: option.splits)

lemma plan_next_replay:
  assumes "recorded_result (steps (fst rm)) ''determine-next-actions'' = Some (Planned n)"
  shows "plan_next dflt t a rm = (Inr (claims_completed (params (fst rm)) a n t), rm)"
  using assms by (simp add: plan_next_def execute_replay)

lemma store_and_plan_replay:
  assumes "recorded_result (steps (fst rm)) ''store-analysis-results'' = Some s3"
    and "recorded_result (steps (fst rm)) ''determine-next-actions'' = Some (Planned n)"
  shows "store_and_plan dflt t a rm = (Inr (claims_completed (params (fst rm)) a n t), rm)"
  using assms by (simp add: store_and_plan_def execute_replay plan_next_replay)

lemma analyse_and_rest_replay:
  assumes "recorded_result (steps (fst rm)) ''ai-analyze-rejection'' = Some (Analysed a)"
    and "recorded_result (steps (fst rm)) ''store-analysis-results'' = Some s3"
    and "recorded_result (steps (fst rm)) ''determine-next-actions'' = Some (Planned n)"
  shows "analyse_and_rest dflt t rm = (Inr (claims_completed (params (fst rm)) a n t), rm)"
  using assms by (simp add: analyse_and_rest_def execute_replay store_and_plan_replay)

lemma ClaimsWorkflow_run_replay:
  assumes "recorded_result (steps run) ''validate-claim-data'' = Some (Validated v)"
    and "isValid v"
    and "recorded_result (steps run) ''ai-analyze-rejection'' = Some (Analysed a)"
    and "recorded_result (steps run) ''store-analysis-results'' = Some s3"
    and "recorded_result (steps run) ''determine-next-actions'' = Some (Planned n)"
  shows "ClaimsWorkflow_run dflt t run m = (Inr (claims_completed (params run) a n t), run, m)"
  using assms by (simp add: ClaimsWorkflow_run_def execute_replay analyse_and_rest_replay)

lemma ClaimsWorkflow_run_replay_invalid:
  assumes "recorded_result (steps run) ''validate-claim-data'' = Some (Validated v)"
    and "\<not> isValid v"
  shows "ClaimsWorkflow_run dflt t run m = (Inr (validation_failed v), run, m)"
  using assms by (simp add: ClaimsWorkflow_run_def execute_replay)

text \<open>
  \<^verbatim>\<open>ClaimsWorkflow.run\<close> on this executor: when an invocation of the run function has returned,
  a second invocation on the run it left returns the same output (for the same time \<open>t\<close>)
  and, for any time, changes neither the run nor the outside state; no step function is
  invoked again.
\<close>

lemma ClaimsWorkflow_run_idempotent:
  assumes ok: "fst (ClaimsWorkflow_run dflt t run m) = Inr out"
  shows "ClaimsWorkflow_run dflt t (fst (snd (ClaimsWorkflow_run dflt t run m)))
           (snd (snd (ClaimsWorkflow_run dflt t run m))) =
         (Inr out, snd (ClaimsWorkflow_run dflt t run m)) \<and>
         snd (ClaimsWorkflow_run dflt t' (fst (snd (ClaimsWorkflow_run dflt t run m)))
           (snd (snd (ClaimsWorkflow_run dflt t run m)))) = snd (ClaimsWorkflow_run dflt t run m)"
proof -
  define r1 where "r1 = execute run ''validate-claim-data''
      (step_body (Validated (validate_claim_data (params run)))) dflt m"
  have W1: "ClaimsWorkflow_run dflt t run m =
      (case fst r1 of
         Inl err \<Rightarrow> (Inl err, snd r1)
       | Inr s1 \<Rightarrow>
           (case s1 of
              Validated v \<Rightarrow>
                if \<not> isValid v then (Inr (validation_failed v), snd r1)
                else analyse_and_rest dflt t (snd r1)
            | _ \<Rightarrow> (Inl ''malformed step result'', snd r1)))"
    unfolding ClaimsWorkflow_run_def r1_def Let_def ..
  from ok obtain v where v: "fst r1 = Inr (Validated v)"
    unfolding W1 by (auto split: sum.splits claims_step.splits)
  have rec1: "recorded_result (steps (fst (snd r1))) ''validate-claim-data'' = Some (Validated v)"
    unfolding r1_def using v[unfolded r1_def] by (rule execute_records_success)
  show ?thesis
  proof (cases "isValid v")
    case False
    have first: "ClaimsWorkflow_run dflt t run m = (Inr (validation_failed v), snd r1)"
      using v False by (simp add: W1)
    then have "out = validation_failed v" using ok by simp
    then show ?thesis
      using ClaimsWorkflow_run_replay_invalid[OF rec1 False, of dflt t' "snd (snd r1)"]
        ClaimsWorkflow_run_replay_invalid[OF rec1 False, of dflt t "snd (snd r1)"]
      by (simp add: first)
  next
    case True
    define r2 where "r2 = execute (fst (snd r1)) ''ai-analyze-rejection''
        (step_body (Analysed (ai_analyze_rejection (params (fst (snd r1))))))
        analysis_options (snd (snd r1))"
    have W2: "ClaimsWorkflow_run dflt t run m =
        (case fst r2 of
           Inl err \<Rightarrow> (Inl err, snd r2)
         | Inr s2 \<Rightarrow>
             (case s2 of
                Analysed a \<Rightarrow> store_and_plan dflt t a (snd r2)
              | _ \<Rightarrow> (Inl ''malformed step result'', snd r2)))"
      unfolding W1 analyse_and_rest_def r2_def Let_def using v True by simp
    from ok obtain a where a: "fst r2 = Inr (Analysed a)"
      unfolding W2 by (auto split: sum.splits claims_step.splits)
    have rec2: "recorded_result (steps (fst (snd r2))) ''ai-analyze-rejection'' = Some (Analysed a)"
      unfolding r2_def using a[unfolded r2_def] by (rule execute_records_success)
    have rec12: "recorded_result (steps (fst (snd r2))) ''validate-claim-data'' = Some (Validated v)"
      unfolding r2_def using rec1 by (rule execute_keeps_record)
    define r3 where "r3 = execute (fst (snd r2)) ''store-analysis-results''
        (step_body (Stored (store_analysis_results t))) dflt (snd (snd r2))"
    have W3: "ClaimsWorkflow_run dflt t run m =
        (case fst r3 of
           Inl err \<Rightarrow> (Inl err, snd r3)
         | Inr s3 \<Rightarrow> plan_next dflt t a (snd r3))"
      unfolding W2 store_and_plan_def r3_def Let_def using a by simp
    from ok obtain s3 where s3: "fst r3 = Inr s3"
      unfolding W3 by (auto split: sum.splits)
    have rec3: "recorded_result (steps (fst (snd r3))) ''store-analysis-results'' = Some s3"
      unfolding r3_def using s3[unfolded r3_def] by (rule execute_records_success)
    have rec23: "recorded_result (steps (fst (snd r3))) ''ai-analyze-rejection'' = Some (Analysed a)"
      unfolding r3_def using rec2 by (rule execute_keeps_record)
    have rec13: "recorded_result (steps (fst (snd r3))) ''validate-claim-data'' = Some (Validated v)"
      unfolding r3_def using rec12 by (rule execute_keeps_record)
    define r4 where "r4 = execute (fst (snd r3)) ''determine-next-actions''
        (step_body (Planned (determine_next_actions a))) dflt (snd (snd r3))"
    have W4: "ClaimsWorkflow_run dflt t run m =
        (case fst r4 of
           Inl err \<Rightarrow> (Inl err, snd r4)
         | Inr s4 \<Rightarrow>
             (case s4 of
                Planned n \<Rightarrow> (Inr (claims_completed (params (fst (snd r3))) a n t), snd r4)
              | _ \<Rightarrow> (Inl ''malformed step result'', snd r4)))"
      unfolding W3 plan_next_def r4_def Let_def using s3 by simp
    from ok obtain n where n: "fst r4 = Inr (Planned n)"
      unfolding W4 by (auto split: sum.splits claims_step.splits)
    have rec4: "recorded_result (steps (fst (snd r4))) ''determine-next-actions'' = Some (Planned n)"
      unfolding r4_def using n[unfolded r4_def] by (rule execute_records_success)
    have rec34: "recorded_result (steps (fst (snd r4))) ''store-analysis-results'' = Some s3"
      unfolding r4_def using rec3 by (rule execute_keeps_record)
    have rec24: "recorded_result (steps (fst (snd r4))) ''ai-analyze-rejection'' = Some (Analysed a)"
      unfolding r4_def using rec23 by (rule execute_keeps_record)
    have rec14: "recorded_result (steps (fst (snd r4))) ''validate-claim-data'' = Some (Validated v)"
      unfolding r4_def using rec13 by (rule execute_keeps_record)
    have par: "params (fst (snd r4)) = params (fst (snd r3))"
      by (simp add: r4_def execute_params)
    have first: "ClaimsWorkflow_run dflt t run m =
        (Inr (claims_completed (params (fst (snd r3))) a n t), snd r4)"
      using n by (simp add: W4)
    then have "out = claims_completed (params (fst (snd r3))) a n t" using ok by simp
    then show ?thesis
      using ClaimsWorkflow_run_replay[OF rec14 True rec24 rec34 rec4, of dflt t "snd (snd r4)"]
        ClaimsWorkflow_run_replay[OF rec14 True rec24 rec34 rec4, of dflt t' "snd (snd r4)"]
      by (simp add: first par)
  qed
qed


lemma attempts_first_success:
  assumes "fst (run_attempt stepName fn opts k m) = Inr v"
  shows "attempts stepName fn opts n k recs m =
           (Inr v, recs @ [fst (snd (run_attempt stepName fn opts k m))],
            snd (snd (run_attempt stepName fn opts k m)))"
  using assms by (cases n) (simp_all add: Let_def)

lemma validate_step_first:
  assumes "timeout dflt = None"
  shows "execute (run\<lparr>steps := []\<rparr>) ''validate-claim-data'' (step_body v) dflt (clock, (c, ds)) =
           (Inr v,
            run\<lparr>steps := [fst (snd (run_attempt ''validate-claim-data'' (step_body v) dflt 1
                                        (clock, (c, ds))))]\<rparr>,
            (clock + ds 0, (Suc c, \<lambda>i. ds (Suc i))))"
proof -
  let ?a = "run_attempt ''validate-claim-data'' (step_body v) dflt 1 (clock, (c, ds))"
  have a: "fst ?a = Inr v" "snd (snd ?a) = (clock + ds 0, (Suc c, \<lambda>i. ds (Suc i)))"
    using assms
    by (simp_all add: run_attempt_def step_body_def counting_def timed_def timed_out_def
        attempt_time_def Let_def)
  show ?thesis
    using attempts_first_success[OF a(1), of "limit (retries dflt)" "[]"] a(2)
    by (simp add: execute_def recorded_result_def Let_def)
qed

text \<open>
  The step \<^verbatim>\<open>ai-analyze-rejection\<close> declares \<^verbatim>\<open>retries: { limit: 3 }\<close> and a timeout of two
  minutes. When every invocation of a step function takes longer than that (and steps
  without options have no timeout), a fresh run of a valid claim invokes the validation once
  and the analysis four times, and ends failed.
\<close>

lemma ai_analyze_rejection_retries:
  assumes "timeout dflt = None" and "isValid (validate_claim_data p)" and "\<forall>i. 120000 < ds i"
  shows "let r = invoke (ClaimsWorkflow_run dflt t) (new_run i p) (clock, (c, ds))
         in isl (fst r) \<and> run_status (fst (snd r)) = run_failed \<and> fst (snd (snd (snd r))) = c + 5"
proof -
  let ?v = "Validated (validate_claim_data p)"
  let ?run0 = "(new_run i p :: claims_run)\<lparr>run_status := running\<rparr>"
  define rec where "rec = fst (snd (run_attempt ''validate-claim-data'' (step_body ?v) dflt 1
      (clock, (c, ds))))"
  have run0: "?run0\<lparr>steps := []\<rparr> = ?run0" by (simp add: new_run_def)
  have r1: "execute ?run0 ''validate-claim-data'' (step_body ?v) dflt (clock, (c, ds)) =
      (Inr ?v, ?run0\<lparr>steps := [rec]\<rparr>, (clock + ds 0, (Suc c, \<lambda>i. ds (Suc i))))"
    using validate_step_first[OF assms(1), of ?run0 ?v clock c ds] by (simp only: run0 rec_def)
  have name: "step_name rec = ''validate-claim-data''"
    by (simp add: rec_def run_attempt_record)
  let ?run1 = "?run0\<lparr>steps := [rec]\<rparr>"
  let ?fn = "timed (Analysed (ai_analyze_rejection p))"
  have none: "recorded_result (steps ?run1) ''ai-analyze-rejection'' = None"
    using name by (simp add: recorded_result_def)
  have inv: "\<forall>ds. (\<forall>i. 120000 < ds i) \<longrightarrow>
      attempt_fails analysis_options (?fn ds) \<and> (\<forall>i. 120000 < snd (snd (?fn ds)) i)"
    by (simp add: attempt_fails_def timed_def timed_out_def analysis_options_def)
  have shifted: "\<forall>i. 120000 < ds (Suc i)" using assms(3) by simp
  have lim: "limit (retries analysis_options) = 3" by (simp add: analysis_options_def)
  let ?r2 = "execute ?run1 ''ai-analyze-rejection'' (counting ?fn) analysis_options
      (clock + ds 0, (Suc c, \<lambda>i. ds (Suc i)))"
  have r2: "isl (fst ?r2)" "fst (snd (snd (snd ?r2))) = Suc c + 3 + 1"
    using retry_exhaustion[where P = "\<lambda>ds. \<forall>i. 120000 < ds i", OF none lim shifted inv, of "clock + ds 0" "Suc c"]
    by (simp_all add: Let_def)
  then obtain err where err: "fst ?r2 = Inl err" by (auto simp add: isl_def)
  have params: "params (new_run i p :: claims_run) = p" by (simp add: new_run_def)
  have sb: "step_body (Analysed (ai_analyze_rejection p)) = counting ?fn"
    by (simp add: step_body_def)
  have body: "ClaimsWorkflow_run dflt t ?run0 (clock, (c, ds)) = (Inl err, snd ?r2)"
    using err assms(2)
    by (simp add: ClaimsWorkflow_run_def r1 params analyse_and_rest_def sb Let_def)
  show ?thesis
    using r2(2) by (simp add: invoke_def body Let_def)
qed

text \<open>
  The slip behind claim C3, seen from outside: the workflow run of the claim with the reason
  ``duplicate claim'' completes with the actions of an automated correction and without
  human review; the branch of \<^verbatim>\<open>determine-next-actions\<close> that routes to manual review is
  never taken.
\<close>

lemma duplicate_claim_is_automated:
  "fst (invoke (ClaimsWorkflow_run no_retries ''2026-01-01T00:00:00.000Z'')
          (new_run ''run-3'' duplicate_claim) (0, (0, \<lambda>i. 7))) =
     Inr (claims_completed duplicate_claim (ai_analyze_rejection duplicate_claim)
            \<lparr>actions = [''Prepare corrected claim'', ''Submit for re-processing''],
              requiresHumanReview = False\<rparr>
            ''2026-01-01T00:00:00.000Z'')"
  by (simp add: invoke_def ClaimsWorkflow_run_def analyse_and_rest_def store_and_plan_def
      plan_next_def execute_def recorded_result_def run_attempt_def step_body_def counting_def
      timed_def timed_out_def attempt_time_def no_retries_def analysis_options_def new_run_def
      Let_def validate_claim_data_def falsy_string_def duplicate_claim_def empty_payload_def
      determine_next_actions_def ai_analyze_rejection_confidence numeral_3_eq_3)

end
